theory Spec2Isabelle
  imports Main "HOL-Library.Product_Lexorder"
begin

section \<open>Case workflow and document consolidation of gestao-pad (app.py)\<close>

text \<open>
  A shallow embedding of the Flask application in \<^verbatim>\<open>src/app.py\<close>. The routes are
  modelled for an authenticated session, as functions from the state of the record store,
  the upload folder and the flashed messages to the new state. What the application gets
  from its libraries (the clock, the parsers of form values, \<^verbatim>\<open>secure_filename\<close>, the
  renderer of the cover page) is a field of the record \<open>env\<close>, so every theorem holds for
  whatever those return.

  Strings are byte strings holding the UTF-8 encoding of the Python text; equality,
  \<^verbatim>\<open>replace('/', '-')\<close> and \<^verbatim>\<open>lower().endswith('.pdf')\<close> agree with Python's on it
  (no character outside ASCII has \<^verbatim>\<open>.\<close>, \<^verbatim>\<open>p\<close>, \<^verbatim>\<open>d\<close> or \<^verbatim>\<open>f\<close> in its lower case).
\<close>

subsection \<open>Dates\<close>

text \<open>
  A \<^verbatim>\<open>date\<close> is its proleptic Gregorian ordinal (\<^verbatim>\<open>date.toordinal()\<close>), a
  \<^verbatim>\<open>datetime\<close> the pair of its date and the microseconds since midnight, ordered
  lexicographically. Python's \<^verbatim>\<open>date\<close> holds the ordinals 1 to 3652059 and a
  \<^verbatim>\<open>timedelta\<close> at most 999999999 days either way; outside, both raise OverflowError.
\<close>

type_synonym date = int
type_synonym datetime = "int \<times> nat"

datatype error =
    BadRequest
  | NotFound
  | ValueError
  | IntegrityError
  | OverflowError
  | IndexError

definition date_of :: "datetime \<Rightarrow> date" where
  "date_of dt = fst dt"

definition timedelta :: "int \<Rightarrow> error + int" where
  "timedelta days = (if \<bar>days\<bar> \<le> 999999999 then Inr days else Inl OverflowError)"

definition date_add :: "date \<Rightarrow> int \<Rightarrow> error + date" where
  "date_add d td = (if 1 \<le> d + td \<and> d + td \<le> 3652059 then Inr (d + td) else Inl OverflowError)"

definition date_plus_days :: "date \<Rightarrow> int \<Rightarrow> error + date" where
  "date_plus_days d n = (case timedelta n of Inl e \<Rightarrow> Inl e | Inr td \<Rightarrow> date_add d td)"

subsection \<open>The workflow table\<close>

definition WORKFLOWS :: "(string \<times> string list) list" where
  "WORKFLOWS =
    [(''PAD'',
        [''Autuado'', ''Instru'' @ [CHR 0xC3, CHR 0xA7, CHR 0xC3, CHR 0xA3] @ ''o'',
         ''Relat'' @ [CHR 0xC3, CHR 0xB3] @ ''rio Final'', ''Julgamento'', ''Finalizado'']),
     (''Sindic'' @ [CHR 0xC3, CHR 0xA2] @ ''ncia'',
        [''Autuado'', ''Apura'' @ [CHR 0xC3, CHR 0xA7, CHR 0xC3, CHR 0xA3] @ ''o'',
         ''Relat'' @ [CHR 0xC3, CHR 0xB3] @ ''rio Final'', ''Arquivado'']),
     (''Tomada de Conta Especial'',
        [''Instaura'' @ [CHR 0xC3, CHR 0xA7, CHR 0xC3, CHR 0xA3] @ ''o'',
         ''Cita'' @ [CHR 0xC3, CHR 0xA7, CHR 0xC3, CHR 0xA3] @ ''o'', ''Defesa'',
         ''Relat'' @ [CHR 0xC3, CHR 0xB3] @ ''rio'', ''Julgamento'', ''Finalizado'']),
     (''Processo Administrativo Especial'',
        [''Autua'' @ [CHR 0xC3, CHR 0xA7, CHR 0xC3, CHR 0xA3] @ ''o'',
         ''Instru'' @ [CHR 0xC3, CHR 0xA7, CHR 0xC3, CHR 0xA3] @ ''o'',
         ''Decis'' @ [CHR 0xC3, CHR 0xA3] @ ''o'', ''Finalizado''])]"

text \<open>\<^verbatim>\<open>WORKFLOWS.get(tipo, default)\<close>.\<close>

definition workflows_get :: "string \<Rightarrow> string list \<Rightarrow> string list" where
  "workflows_get t dflt = (case map_of WORKFLOWS t of None \<Rightarrow> dflt | Some etapas \<Rightarrow> etapas)"

subsection \<open>The tables\<close>

record processo =
  p_id :: nat
  numero_processo :: string
  portaria :: "string option"
  membros_comissao :: "(string \<times> string) list"
  tipo :: string
  servidor_a_apurar :: bool
  servidor_investigado :: "string option"
  servidor_cargo :: "string option"
  servidor_matricula :: "string option"
  resumo_fatos :: string
  status :: string
  data_autuacao :: datetime
  prazo_inicial_dias :: "int option"
  prorrogacao_dias :: "int option"
  data_atualizacao :: datetime

record andamento =
  a_id :: nat
  etapa :: string
  descricao :: "string option"
  data :: datetime
  processo_id :: nat

record documento =
  d_id :: nat
  filename :: string
  andamento_id :: nat

subsection \<open>The deadline count of the dashboard (route \<^verbatim>\<open>index\<close>)\<close>

text \<open>\<^verbatim>\<open>p.status not in ['Finalizado', 'Arquivado']\<close>.\<close>

definition em_andamento :: "processo \<Rightarrow> bool" where
  "em_andamento p = (status p \<notin> set [''Finalizado'', ''Arquivado''])"

text \<open>Python's truth value of \<^verbatim>\<open>p.prazo_inicial_dias\<close>: None and 0 are false.\<close>

definition truthy_int :: "int option \<Rightarrow> bool" where
  "truthy_int v = (case v of None \<Rightarrow> False | Some n \<Rightarrow> n \<noteq> 0)"

text \<open>\<^verbatim>\<open>p.prorrogacao_dias or 0\<close>.\<close>

definition or_zero :: "int option \<Rightarrow> int" where
  "or_zero v = (case v of None \<Rightarrow> 0 | Some n \<Rightarrow> n)"

text \<open>
  One turn of the loop of lines 168 to 173: whether the case adds one to
  \<^verbatim>\<open>prazos_vencendo\<close>, or the OverflowError that the date arithmetic raises.
\<close>

definition prazo_vence :: "date \<Rightarrow> date \<Rightarrow> processo \<Rightarrow> error + bool" where
  "prazo_vence hoje limite_vencimento p =
    (if em_andamento p \<and> truthy_int (prazo_inicial_dias p) then
       (let prazo_total = the (prazo_inicial_dias p) + or_zero (prorrogacao_dias p) in
        case date_plus_days (date_of (data_autuacao p)) prazo_total of
          Inl e \<Rightarrow> Inl e
        | Inr data_final \<Rightarrow> Inr (hoje \<le> data_final \<and> data_final < limite_vencimento))
     else Inr False)"

fun contar_prazos :: "date \<Rightarrow> date \<Rightarrow> processo list \<Rightarrow> nat \<Rightarrow> error + nat" where
  "contar_prazos hoje limite [] n = Inr n"
| "contar_prazos hoje limite (p # ps) n =
    (case prazo_vence hoje limite p of
       Inl e \<Rightarrow> Inl e
     | Inr b \<Rightarrow> contar_prazos hoje limite ps (if b then n + 1 else n))"

text \<open>Lines 165 to 173: the value of \<^verbatim>\<open>prazos_vencendo\<close> for the cases listed.\<close>

definition prazos_vencendo :: "date \<Rightarrow> processo list \<Rightarrow> error + nat" where
  "prazos_vencendo hoje ps =
    (case date_plus_days hoje 7 of
       Inl e \<Rightarrow> Inl e
     | Inr limite_vencimento \<Rightarrow> contar_prazos hoje limite_vencimento ps 0)"

text \<open>
  The deadline of a case is a date that Python can hold: neither the \<^verbatim>\<open>timedelta\<close> of
  line 171 nor the sum raises.
\<close>

definition prazo_representavel :: "processo \<Rightarrow> bool" where
  "prazo_representavel p =
    (let prazo_total = or_zero (prazo_inicial_dias p) + or_zero (prorrogacao_dias p)
     in \<bar>prazo_total\<bar> \<le> 999999999 \<and>
        1 \<le> date_of (data_autuacao p) + prazo_total \<and>
        date_of (data_autuacao p) + prazo_total \<le> 3652059)"

text \<open>
  The specification's formula, written from its words: the opening date plus the initial
  deadline plus the extension, minus the day of evaluation. It has no value for a case
  without an initial deadline; a missing extension counts as 0, its default.
\<close>

definition daysRemaining_spec :: "processo \<Rightarrow> date \<Rightarrow> int option" where
  "daysRemaining_spec p asOf =
    (case prazo_inicial_dias p of
       None \<Rightarrow> None
     | Some d \<Rightarrow> Some (date_of (data_autuacao p) + d + or_zero (prorrogacao_dias p) - asOf))"

definition expiring_soon_spec :: "processo \<Rightarrow> date \<Rightarrow> bool" where
  "expiring_soon_spec p asOf =
    (em_andamento p \<and>
     (case daysRemaining_spec p asOf of None \<Rightarrow> False | Some r \<Rightarrow> 0 \<le> r \<and> r < 7))"

subsection \<open>The state: record store, upload folder, flashed messages\<close>

text \<open>
  A page is named by its content. A file of the upload folder is a PDF that pypdf reads,
  with its pages in order, or anything else; an upload is accepted on its name alone, so
  the folder can hold both.
\<close>

type_synonym pagina = string

datatype blob = Pdf "pagina list" | Corrompido

text \<open>A part of \<^verbatim>\<open>request.files\<close> (werkzeug's FileStorage).\<close>

record ficheiro =
  f_filename :: string
  f_conteudo :: blob

text \<open>
  The messages the routes flash, one constructor for each text:
  \<^item> \<open>Erro_numero_existe n\<close>: \<^verbatim>\<open>Erro: O numero de processo "n" ja existe.\<close> (danger);
  \<^item> \<open>Processo_adicionado\<close>: \<^verbatim>\<open>Processo adicionado com sucesso!\<close> (success);
  \<^item> \<open>Etapa_necessaria\<close>: \<^verbatim>\<open>E necessario selecionar uma nova etapa.\<close> (danger);
  \<^item> \<open>Ficheiro_ignorado f\<close>: \<^verbatim>\<open>Ficheiro "f" ignorado. Apenas PDFs sao permitidos.\<close> (warning);
  \<^item> \<open>Processo_avancado e\<close>: \<^verbatim>\<open>Processo avancado para a etapa: e.\<close> (success);
  \<^item> \<open>Processo_excluido\<close>: \<^verbatim>\<open>Processo excluido com sucesso.\<close> (success).
\<close>

datatype flash =
    Erro_numero_existe string
  | Processo_adicionado
  | Etapa_necessaria
  | Ficheiro_ignorado string
  | Processo_avancado string
  | Processo_excluido

datatype categoria = Danger | Success | Warning

fun categoria_de :: "flash \<Rightarrow> categoria" where
  "categoria_de (Erro_numero_existe n) = Danger"
| "categoria_de Processo_adicionado = Success"
| "categoria_de Etapa_necessaria = Danger"
| "categoria_de (Ficheiro_ignorado f) = Warning"
| "categoria_de (Processo_avancado e) = Success"
| "categoria_de Processo_excluido = Success"

record state =
  processos :: "processo list"
  andamentos :: "andamento list"
  documentos :: "documento list"
  uploads :: "string \<rightharpoonup> blob"
  flashes :: "flash list"

datatype response =
    Redirect_index
  | Redirect_adicionar_processo
  | Redirect_detalhes_processo nat
  | Render_adicionar_processo

datatype http_method = GET | POST

text \<open>
  What a request gets from outside the application:
  \<^item> \<open>utcnow\<close>: \<^verbatim>\<open>datetime.utcnow()\<close>, the column default, when the request commits;
  \<^item> \<open>agora_str i\<close>: \<^verbatim>\<open>datetime.now().strftime('%Y%m%d%H%M%S')\<close> when the loop of
    \<^verbatim>\<open>avancar_etapa\<close> reaches the \<open>i\<close>-th attached file;
  \<^item> \<open>strptime\<close>: \<^verbatim>\<open>datetime.strptime(_, '%Y-%m-%d')\<close>, the date it reads or None where it
    raises ValueError;
  \<^item> \<open>py_int\<close>: \<^verbatim>\<open>int(_)\<close>, None where it raises ValueError;
  \<^item> \<open>secure_filename\<close>: werkzeug's function of that name;
  \<^item> \<open>render_capa\<close>: the pages of the cover that WeasyPrint renders from
    \<^verbatim>\<open>capa_processo.html\<close>;
  \<^item> \<open>timestamp_str\<close>: \<^verbatim>\<open>datetime.now().strftime('%Y%m%d_%H%M%S')\<close> when the report is saved.
\<close>

record env =
  utcnow :: datetime
  agora_str :: "nat \<Rightarrow> string"
  strptime :: "string \<Rightarrow> date option"
  py_int :: "string \<Rightarrow> int option"
  secure_filename :: "string \<Rightarrow> string"
  render_capa :: "processo \<Rightarrow> pagina list"
  timestamp_str :: string

text \<open>
  A new row gets the key SQLite gives an INTEGER PRIMARY KEY column: one more than the
  largest key of the table, 1 in an empty table.
\<close>

definition next_id :: "nat list \<Rightarrow> nat" where
  "next_id ids = Suc (fold max ids 0)"

text \<open>The relationships \<^verbatim>\<open>processo.andamentos\<close> and \<^verbatim>\<open>andamento.documentos\<close>.\<close>

definition andamentos_de :: "state \<Rightarrow> nat \<Rightarrow> andamento list" where
  "andamentos_de s pid = filter (\<lambda>a. processo_id a = pid) (andamentos s)"

definition documentos_de :: "state \<Rightarrow> andamento \<Rightarrow> documento list" where
  "documentos_de s a = filter (\<lambda>d. andamento_id d = a_id a) (documentos s)"

subsection \<open>Form data\<close>

text \<open>\<^verbatim>\<open>request.form\<close> is a MultiDict: the pairs in the order sent, a key as often as sent.\<close>

type_synonym form = "(string \<times> string) list"

text \<open>\<^verbatim>\<open>form[k]\<close>: the first value, or 400 Bad Request.\<close>

definition form_getitem :: "form \<Rightarrow> string \<Rightarrow> error + string" where
  "form_getitem f k = (case map_of f k of None \<Rightarrow> Inl BadRequest | Some v \<Rightarrow> Inr v)"

definition form_get :: "form \<Rightarrow> string \<Rightarrow> string option" where
  "form_get f k = map_of f k"

definition form_getlist :: "form \<Rightarrow> string \<Rightarrow> string list" where
  "form_getlist f k = map snd (filter (\<lambda>kv. fst kv = k) f)"

definition form_contains :: "form \<Rightarrow> string \<Rightarrow> bool" where
  "form_contains f k = (map_of f k \<noteq> None)"

text \<open>\<^verbatim>\<open>form.get(k, default, type=int)\<close>: the default when the key is missing or not a number.\<close>

definition form_get_int :: "env \<Rightarrow> form \<Rightarrow> string \<Rightarrow> int option \<Rightarrow> int option" where
  "form_get_int ev f k dflt =
    (case map_of f k of
       None \<Rightarrow> dflt
     | Some v \<Rightarrow> (case py_int ev v of None \<Rightarrow> dflt | Some n \<Rightarrow> Some n))"

text \<open>
  \<^verbatim>\<open>_processar_membros_comissao\<close>: the list that \<^verbatim>\<open>json.dumps\<close> then writes as text.
\<close>

definition processar_membros_comissao :: "form \<Rightarrow> (string \<times> string) list" where
  "processar_membros_comissao f =
    filter (\<lambda>nf. fst nf \<noteq> [])
      (zip (form_getlist f ''membro_nome'') (form_getlist f ''membro_funcao''))"

subsection \<open>Creating a case (route \<^verbatim>\<open>adicionar_processo\<close>)\<close>

text \<open>
  Lines 186 to 214, which only read the record store: the early return for a number that
  is taken, or the row to insert. Its key and its \<^verbatim>\<open>data_atualizacao\<close> are set when it is
  inserted; until then they hold 0.
\<close>

datatype verificacao = Ja_existe string | Novo processo

definition preparar_processo :: "env \<Rightarrow> state \<Rightarrow> form \<Rightarrow> error + verificacao" where
  "preparar_processo ev s f =
    (case form_getitem f ''numero_processo'' of
       Inl e \<Rightarrow> Inl e
     | Inr numero_processo_form \<Rightarrow>
    (case find (\<lambda>p. numero_processo p = numero_processo_form) (processos s) of
       Some processo_existente \<Rightarrow> Inr (Ja_existe numero_processo_form)
     | None \<Rightarrow>
    (case form_getitem f ''data_autuacao'' of
       Inl e \<Rightarrow> Inl e
     | Inr data_str \<Rightarrow>
    (case strptime ev data_str of
       None \<Rightarrow> Inl ValueError
     | Some dia \<Rightarrow>
    (case form_getitem f ''tipo'' of
       Inl e \<Rightarrow> Inl e
     | Inr tipo_processo \<Rightarrow>
    (case workflows_get tipo_processo [''Autuado''] of
       [] \<Rightarrow> Inl IndexError
     | status_inicial # _ \<Rightarrow>
    (case form_getitem f ''resumo_fatos'' of
       Inl e \<Rightarrow> Inl e
     | Inr resumo \<Rightarrow>
       Inr (Novo \<lparr>
         p_id = 0,
         numero_processo = numero_processo_form,
         portaria = form_get f ''portaria'',
         membros_comissao = processar_membros_comissao f,
         tipo = tipo_processo,
         servidor_a_apurar = form_contains f ''servidor_a_apurar'',
         servidor_investigado = form_get f ''servidor_investigado'',
         servidor_cargo = form_get f ''servidor_cargo'',
         servidor_matricula = form_get f ''servidor_matricula'',
         resumo_fatos = resumo,
         status = status_inicial,
         data_autuacao = (dia, 0),
         prazo_inicial_dias = form_get_int ev f ''prazo_inicial_dias'' None,
         prorrogacao_dias = form_get_int ev f ''prorrogacao_dias'' (Some 0),
         data_atualizacao = (0, 0)\<rparr>))))))))"

text \<open>
  Lines 214 to 217: the commit inserts the case and its first entry in one transaction.
  The column \<^verbatim>\<open>numero_processo\<close> is declared unique (line 61), so the insert of a number
  that is in the table raises IntegrityError and nothing is written.
\<close>

definition commit_processo :: "env \<Rightarrow> state \<Rightarrow> processo \<Rightarrow> error + state" where
  "commit_processo ev s novo_processo =
    (case find (\<lambda>p. numero_processo p = numero_processo novo_processo) (processos s) of
       Some _ \<Rightarrow> Inl IntegrityError
     | None \<Rightarrow>
       (let pid = next_id (map p_id (processos s));
            primeiro_andamento = \<lparr>
              a_id = next_id (map a_id (andamentos s)),
              etapa = status novo_processo,
              descricao = Some ''Processo instaurado.'',
              data = utcnow ev,
              processo_id = pid\<rparr>
        in Inr (s\<lparr>
             processos := processos s @ [novo_processo\<lparr>p_id := pid, data_atualizacao := utcnow ev\<rparr>],
             andamentos := andamentos s @ [primeiro_andamento]\<rparr>)))"

definition adicionar_processo ::
  "env \<Rightarrow> state \<Rightarrow> http_method \<Rightarrow> form \<Rightarrow> error + state \<times> response" where
  "adicionar_processo ev s m f =
    (if m = POST then
       (case preparar_processo ev s f of
          Inl e \<Rightarrow> Inl e
        | Inr (Ja_existe n) \<Rightarrow>
            Inr (s\<lparr>flashes := flashes s @ [Erro_numero_existe n]\<rparr>, Redirect_adicionar_processo)
        | Inr (Novo novo_processo) \<Rightarrow>
            (case commit_processo ev s novo_processo of
               Inl e \<Rightarrow> Inl e
             | Inr s' \<Rightarrow>
                 Inr (s'\<lparr>flashes := flashes s' @ [Processo_adicionado]\<rparr>, Redirect_index)))
     else Inr (s, Render_adicionar_processo))"

subsection \<open>Two requests that create a case at the same time\<close>

text \<open>
  The route reads the table (line 190) and writes it (line 217) in two steps, and another
  request can run between them. A request is at its start, or has passed the check and
  holds the row to insert, or has ended. A schedule says which of two requests takes the
  next step; a step of a request that has ended does nothing.
\<close>

datatype desfecho = Criado | Duplicado | Erro error

datatype pedido = Inicial env form | Verificado env processo | Terminado desfecho

fun passo_pedido :: "state \<Rightarrow> pedido \<Rightarrow> state \<times> pedido" where
  "passo_pedido s (Inicial ev f) =
    (case preparar_processo ev s f of
       Inl e \<Rightarrow> (s, Terminado (Erro e))
     | Inr (Ja_existe n) \<Rightarrow>
         (s\<lparr>flashes := flashes s @ [Erro_numero_existe n]\<rparr>, Terminado Duplicado)
     | Inr (Novo novo_processo) \<Rightarrow> (s, Verificado ev novo_processo))"
| "passo_pedido s (Verificado ev novo_processo) =
    (case commit_processo ev s novo_processo of
       Inl e \<Rightarrow> (s, Terminado (Erro e))
     | Inr s' \<Rightarrow> (s'\<lparr>flashes := flashes s' @ [Processo_adicionado]\<rparr>, Terminado Criado))"
| "passo_pedido s (Terminado d) = (s, Terminado d)"

fun executar :: "bool list \<Rightarrow> state \<times> pedido \<times> pedido \<Rightarrow> state \<times> pedido \<times> pedido" where
  "executar [] c = c"
| "executar (b # bs) (s, pa, pb) =
    (if b then (case passo_pedido s pa of (s', pa') \<Rightarrow> executar bs (s', pa', pb))
     else (case passo_pedido s pb of (s', pb') \<Rightarrow> executar bs (s', pa, pb')))"

subsection \<open>Deleting a case (route \<^verbatim>\<open>excluir_processo\<close>)\<close>

text \<open>
  \<^verbatim>\<open>db.session.delete(processo)\<close> deletes the row and, by the cascades of lines 75 and 83,
  the entries of \<^verbatim>\<open>processo.andamentos\<close> and the documents of each, every row by its key.
\<close>

definition excluir_processo :: "state \<Rightarrow> nat \<Rightarrow> error + state \<times> response" where
  "excluir_processo s pid =
    (case find (\<lambda>p. p_id p = pid) (processos s) of
       None \<Rightarrow> Inl NotFound
     | Some processo \<Rightarrow>
       (let ands = andamentos_de s (p_id processo);
            docs = concat (map (documentos_de s) ands)
        in Inr (s\<lparr>
             processos := filter (\<lambda>p. p_id p \<noteq> p_id processo) (processos s),
             andamentos := filter (\<lambda>a. a_id a \<notin> set (map a_id ands)) (andamentos s),
             documentos := filter (\<lambda>d. d_id d \<notin> set (map d_id docs)) (documentos s),
             flashes := flashes s @ [Processo_excluido]\<rparr>, Redirect_index)))"

subsection \<open>Advancing the stage (route \<^verbatim>\<open>avancar_etapa\<close>)\<close>

text \<open>\<^verbatim>\<open>str.lower\<close> on the bytes: the letters A to Z move, nothing else does.\<close>

definition lower_char :: "char \<Rightarrow> char" where
  "lower_char c =
    (let n = (of_char c :: nat) in if 65 \<le> n \<and> n \<le> 90 then char_of (n + 32) else c)"

definition lower :: "string \<Rightarrow> string" where
  "lower s = map lower_char s"

definition endswith :: "string \<Rightarrow> string \<Rightarrow> bool" where
  "endswith s suf = (length suf \<le> length s \<and> drop (length s - length suf) s = suf)"

text \<open>Python's truth value of a text that may be None: None and the empty text are false.\<close>

definition truthy_str :: "string option \<Rightarrow> bool" where
  "truthy_str v = (case v of None \<Rightarrow> False | Some x \<Rightarrow> x \<noteq> [])"

text \<open>
  The loop of lines 281 to 289 over \<^verbatim>\<open>request.files.getlist('documentos')\<close>, from the
  \<open>i\<close>-th file on. It carries the upload folder, the names of the documents added to the
  session and the warnings flashed.
\<close>

text \<open>The truth value of a FileStorage is that of its filename.\<close>

definition ficheiro_bool :: "ficheiro \<Rightarrow> bool" where
  "ficheiro_bool file = (f_filename file \<noteq> [])"

fun guardar_ficheiros ::
  "env \<Rightarrow> nat \<Rightarrow> ficheiro list \<Rightarrow> (string \<rightharpoonup> blob) \<times> string list \<times> flash list \<Rightarrow>
   (string \<rightharpoonup> blob) \<times> string list \<times> flash list" where
  "guardar_ficheiros ev i [] acc = acc"
| "guardar_ficheiros ev i (file # files) (ups, nomes, avisos) =
    (if ficheiro_bool file \<and> f_filename file \<noteq> [] then
       (if \<not> endswith (lower (f_filename file)) ''.pdf'' then
          guardar_ficheiros ev (i + 1) files
            (ups, nomes, avisos @ [Ficheiro_ignorado (f_filename file)])
        else
          (let filename = secure_filename ev (agora_str ev i @ ''_'' @ f_filename file) in
           guardar_ficheiros ev (i + 1) files
             (ups(filename \<mapsto> f_conteudo file), nomes @ [filename], avisos)))
     else guardar_ficheiros ev (i + 1) files (ups, nomes, avisos))"

text \<open>The rows of the documents added to the session, keyed in the order they were added.\<close>

fun novos_documentos :: "nat \<Rightarrow> nat \<Rightarrow> string list \<Rightarrow> documento list" where
  "novos_documentos k aid [] = []"
| "novos_documentos k aid (nome # nomes) =
    \<lparr>d_id = k, filename = nome, andamento_id = aid\<rparr> # novos_documentos (k + 1) aid nomes"

text \<open>
  \<^verbatim>\<open>processo.status = nova_etapa\<close>: the row is written, and \<^verbatim>\<open>data_atualizacao\<close> with it
  (\<^verbatim>\<open>onupdate\<close>), when the value differs from the one loaded.
\<close>

definition set_status :: "env \<Rightarrow> string \<Rightarrow> processo \<Rightarrow> processo" where
  "set_status ev nova_etapa p =
    (if status p = nova_etapa then p
     else p\<lparr>status := nova_etapa, data_atualizacao := utcnow ev\<rparr>)"

definition avancar_etapa ::
  "env \<Rightarrow> state \<Rightarrow> nat \<Rightarrow> form \<Rightarrow> ficheiro list \<Rightarrow> error + state \<times> response" where
  "avancar_etapa ev s pid f files =
    (case find (\<lambda>p. p_id p = pid) (processos s) of
       None \<Rightarrow> Inl NotFound
     | Some processo \<Rightarrow>
       (let nova_etapa = form_get f ''nova_etapa'';
            descr = form_get f ''descricao''
        in if \<not> truthy_str nova_etapa then
             Inr (s\<lparr>flashes := flashes s @ [Etapa_necessaria]\<rparr>, Redirect_detalhes_processo pid)
           else
             (let etapa_nova = the nova_etapa;
                  aid = next_id (map a_id (andamentos s));
                  novo_andamento = \<lparr>
                    a_id = aid,
                    etapa = etapa_nova,
                    descricao = descr,
                    data = utcnow ev,
                    processo_id = pid\<rparr>
              in case guardar_ficheiros ev 0 files (uploads s, [], []) of
                (ups, nomes, avisos) \<Rightarrow>
                  Inr (s\<lparr>
                    processos :=
                      map (\<lambda>p. if p_id p = pid then set_status ev etapa_nova p else p) (processos s),
                    andamentos := andamentos s @ [novo_andamento],
                    documentos := documentos s @
                      novos_documentos (next_id (map d_id (documentos s))) aid nomes,
                    uploads := ups,
                    flashes := flashes s @ avisos @ [Processo_avancado etapa_nova]\<rparr>,
                    Redirect_detalhes_processo pid))))"

subsection \<open>The consolidated report (\<^verbatim>\<open>generate_pdf_task\<close>)\<close>

text \<open>
  The inner loop of lines 346 to 349: a file that is not in the upload folder is passed
  over; one that pypdf cannot read raises, which ends the task at line 374. None stands
  for that exception.
\<close>

fun anexar_documentos ::
  "(string \<rightharpoonup> blob) \<Rightarrow> documento list \<Rightarrow> pagina list \<Rightarrow> pagina list option" where
  "anexar_documentos ups [] merger = Some merger"
| "anexar_documentos ups (doc # docs) merger =
    (case ups (filename doc) of
       None \<Rightarrow> anexar_documentos ups docs merger
     | Some (Pdf pags) \<Rightarrow> anexar_documentos ups docs (merger @ pags)
     | Some Corrompido \<Rightarrow> None)"

text \<open>The outer loop of line 345 over the sorted entries.\<close>

fun anexar_andamentos :: "state \<Rightarrow> andamento list \<Rightarrow> pagina list \<Rightarrow> pagina list option" where
  "anexar_andamentos s [] merger = Some merger"
| "anexar_andamentos s (a # ands) merger =
    (case anexar_documentos (uploads s) (documentos_de s a) merger of
       None \<Rightarrow> None
     | Some merger' \<Rightarrow> anexar_andamentos s ands merger')"

text \<open>\<^verbatim>\<open>f"{n:03d}"\<close>: the decimal digits of \<open>n\<close>, with zeros in front up to three places.\<close>

fun decimal :: "nat \<Rightarrow> string" where
  "decimal n =
    (if n < 10 then [char_of (48 + n)] else decimal (n div 10) @ [char_of (48 + n mod 10)])"

declare decimal.simps [simp del]

definition fmt_03d :: "nat \<Rightarrow> string" where
  "fmt_03d n = replicate (3 - length (decimal n)) (CHR ''0'') @ decimal n"

datatype alinhamento = TEXT_ALIGN_LEFT | TEXT_ALIGN_CENTER | TEXT_ALIGN_RIGHT | TEXT_ALIGN_JUSTIFY

record folha =
  conteudo :: pagina
  rotulo :: string
  alinhar :: alinhamento

text \<open>The loop of lines 359 to 364, from the page of index \<open>page_num\<close> on.\<close>

fun numerar :: "nat \<Rightarrow> pagina list \<Rightarrow> folha list" where
  "numerar page_num [] = []"
| "numerar page_num (page # pages) =
    \<lparr>conteudo = page, rotulo = ''Fl. '' @ fmt_03d (page_num + 1), alinhar = TEXT_ALIGN_RIGHT\<rparr>
      # numerar (page_num + 1) pages"

text \<open>\<^verbatim>\<open>numero_processo.replace('/', '-')\<close>.\<close>

definition replace_barra :: "string \<Rightarrow> string" where
  "replace_barra s = map (\<lambda>c. if c = CHR ''/'' then CHR ''-'' else c) s"

definition final_filename :: "env \<Rightarrow> processo \<Rightarrow> string" where
  "final_filename ev p =
    ''processo_'' @ replace_barra (numero_processo p) @ ''_'' @ timestamp_str ev @ ''.pdf''"

text \<open>
  What a run of the task leaves: nothing when the case is not found, nothing but a printed
  line when an exception was caught, or the report file, its name and its pages.
\<close>

datatype resultado = Sem_processo | Falhou | Relatorio string "folha list"

definition generate_pdf_task :: "env \<Rightarrow> state \<Rightarrow> nat \<Rightarrow> resultado" where
  "generate_pdf_task ev s pid =
    (case find (\<lambda>p. p_id p = pid) (processos s) of
       None \<Rightarrow> Sem_processo
     | Some processo \<Rightarrow>
       (let capa = render_capa ev processo;
            ands = sort_key data (andamentos_de s (p_id processo))
        in case anexar_andamentos s ands capa of
             None \<Rightarrow> Falhou
           | Some merged \<Rightarrow> Relatorio (final_filename ev processo) (numerar 0 merged)))"

subsection \<open>What cascading ownership leaves\<close>

text \<open>The document hangs under an entry of the case \<open>pid\<close>.\<close>

definition do_processo :: "state \<Rightarrow> nat \<Rightarrow> documento \<Rightarrow> bool" where
  "do_processo s pid d =
    (\<exists>a \<in> set (andamentos s). processo_id a = pid \<and> a_id a = andamento_id d)"

text \<open>No orphans: every entry has its case and every document its entry.\<close>

definition integridade :: "state \<Rightarrow> bool" where
  "integridade s =
    ((\<forall>a \<in> set (andamentos s). \<exists>p \<in> set (processos s). p_id p = processo_id a) \<and>
     (\<forall>d \<in> set (documentos s). \<exists>a \<in> set (andamentos s). a_id a = andamento_id d))"

subsection \<open>Kinds of attached file\<close>

text \<open>The file name ends in \<^verbatim>\<open>.pdf\<close>, in letters of either case.\<close>

definition tem_extensao_pdf :: "ficheiro \<Rightarrow> bool" where
  "tem_extensao_pdf file = endswith (lower (f_filename file)) ''.pdf''"

definition com_nome :: "ficheiro \<Rightarrow> bool" where
  "com_nome file = (f_filename file \<noteq> [])"

definition aceite :: "ficheiro \<Rightarrow> bool" where
  "aceite file = (com_nome file \<and> tem_extensao_pdf file)"

definition recusado :: "ficheiro \<Rightarrow> bool" where
  "recusado file = (com_nome file \<and> \<not> tem_extensao_pdf file)"

text \<open>
  The clock readings of a request from which the \<open>k\<close>-th attached file is taken away:
  those of the files that remain.
\<close>

definition sem_leitura :: "env \<Rightarrow> nat \<Rightarrow> env" where
  "sem_leitura ev k = ev\<lparr>agora_str := (\<lambda>j. agora_str ev (if j < k then j else j + 1))\<rparr>"

subsection \<open>Case numbers\<close>

text \<open>
  The numbers in the table, how many cases have a number, and a form from which line 195
  reads a date and lines 196 and 202 their fields.
\<close>

definition numeros :: "state \<Rightarrow> string list" where
  "numeros s = map numero_processo (processos s)"

definition quantos :: "state \<Rightarrow> string \<Rightarrow> nat" where
  "quantos s n = length (filter (\<lambda>p. numero_processo p = n) (processos s))"

definition formulario_valido :: "env \<Rightarrow> form \<Rightarrow> bool" where
  "formulario_valido ev f =
    ((case map_of f ''data_autuacao'' of None \<Rightarrow> False | Some d \<Rightarrow> strptime ev d \<noteq> None) \<and>
     map_of f ''tipo'' \<noteq> None \<and> map_of f ''resumo_fatos'' \<noteq> None)"

subsection \<open>What two concurrent creations keep true\<close>

text \<open>
  For two requests that submit the number \<open>n\<close>: the cases with that number are as many
  as the requests that have created one, and at most one; a request that has not ended
  carries the number; one that ended without creating ended on the number being taken.
\<close>

fun criado :: "pedido \<Rightarrow> nat" where
  "criado (Terminado Criado) = 1"
| "criado _ = 0"

fun pedido_ok :: "string \<Rightarrow> state \<Rightarrow> pedido \<Rightarrow> bool" where
  "pedido_ok n s (Inicial ev f) = (map_of f ''numero_processo'' = Some n \<and> formulario_valido ev f)"
| "pedido_ok n s (Verificado ev p) = (numero_processo p = n)"
| "pedido_ok n s (Terminado d) =
    (d = Criado \<or> ((d = Duplicado \<or> d = Erro IntegrityError) \<and> n \<in> set (numeros s)))"

definition inv_numero :: "string \<Rightarrow> state \<times> pedido \<times> pedido \<Rightarrow> bool" where
  "inv_numero n c =
    (case c of (s, pa, pb) \<Rightarrow>
       quantos s n = criado pa + criado pb \<and> quantos s n \<le> 1 \<and>
       pedido_ok n s pa \<and> pedido_ok n s pb)"

text \<open>
  The steps a request has left, and the answer of the route for a request that has ended.
\<close>

fun passos_restantes :: "pedido \<Rightarrow> nat" where
  "passos_restantes (Inicial ev f) = 2"
| "passos_restantes (Verificado ev p) = 1"
| "passos_restantes (Terminado d) = 0"

fun resposta :: "state \<times> pedido \<Rightarrow> (error + state \<times> response) option" where
  "resposta (s, Terminado Criado) = Some (Inr (s, Redirect_index))"
| "resposta (s, Terminado Duplicado) = Some (Inr (s, Redirect_adicionar_processo))"
| "resposta (s, Terminado (Erro e)) = Some (Inl e)"
| "resposta (s, p) = None"

subsection \<open>What the report is made of\<close>

text \<open>
  The documents of a case in the order the loops of lines 344 to 346 reach them, the
  pages a document adds to the report (none when its file is missing), and the number a
  text of decimal digits stands for.
\<close>

definition documentos_ordenados :: "state \<Rightarrow> nat \<Rightarrow> documento list" where
  "documentos_ordenados s pid =
    concat (map (documentos_de s) (sort_key data (andamentos_de s pid)))"

definition paginas_de :: "(string \<rightharpoonup> blob) \<Rightarrow> documento \<Rightarrow> pagina list" where
  "paginas_de ups d = (case ups (filename d) of Some (Pdf pags) \<Rightarrow> pags | _ \<Rightarrow> [])"

definition valor_decimal :: "string \<Rightarrow> nat" where
  "valor_decimal str = foldl (\<lambda>n c. 10 * n + (of_char c - 48)) 0 str"

subsection \<open>Example values\<close>

text \<open>A day of the year 2024 and a case opened on it, in its first stage.\<close>

definition data_D :: date where
  "data_D = 739000"

definition caso_exemplo :: "int option \<Rightarrow> int option \<Rightarrow> processo" where
  "caso_exemplo prazo prorrog = \<lparr>
     p_id = 1, numero_processo = ''001/2024'', portaria = None, membros_comissao = [],
     tipo = ''PAD'', servidor_a_apurar = False, servidor_investigado = None,
     servidor_cargo = None, servidor_matricula = None, resumo_fatos = ''Resumo'',
     status = ''Autuado'', data_autuacao = (data_D, 0), prazo_inicial_dias = prazo,
     prorrogacao_dias = prorrog, data_atualizacao = (data_D, 0)\<rparr>"

text \<open>
  A record store with two cases. The first has the entry of its opening and two later
  entries with one document each; the second has one entry with one document.
\<close>

definition outro_caso :: processo where
  "outro_caso = (caso_exemplo (Some 60) (Some 0))\<lparr>p_id := 2, numero_processo := ''002/2024''\<rparr>"

definition estado_exemplo :: state where
  "estado_exemplo = \<lparr>
     processos = [caso_exemplo (Some 30) (Some 5), outro_caso],
     andamentos =
       [\<lparr>a_id = 1, etapa = ''Autuado'', descricao = Some ''Processo instaurado.'',
          data = (data_D, 0), processo_id = 1\<rparr>,
        \<lparr>a_id = 2, etapa = ''Autuado'', descricao = Some ''Processo instaurado.'',
          data = (data_D, 5), processo_id = 2\<rparr>,
        \<lparr>a_id = 3, etapa = ''Julgamento'', descricao = None,
          data = (data_D + 9, 0), processo_id = 1\<rparr>,
        \<lparr>a_id = 4, etapa = ''Relatorio'', descricao = None,
          data = (data_D + 2, 0), processo_id = 1\<rparr>],
     documentos =
       [\<lparr>d_id = 1, filename = ''a.pdf'', andamento_id = 2\<rparr>,
        \<lparr>d_id = 2, filename = ''b.pdf'', andamento_id = 3\<rparr>,
        \<lparr>d_id = 3, filename = ''c.pdf'', andamento_id = 4\<rparr>],
     uploads = [''a.pdf'' \<mapsto> Pdf [''a1''], ''b.pdf'' \<mapsto> Pdf [''b1'', ''b2''],
                ''c.pdf'' \<mapsto> Pdf [''c1'', ''c2'', ''c3'']],
     flashes = []\<rparr>"

text \<open>
  A request to advance the first case to a stage that no workflow lists, with a PDF whose
  name is in capitals, a text file and the empty part a browser sends for a file input
  left blank; and what the libraries return to it.
\<close>

definition env_exemplo :: env where
  "env_exemplo = \<lparr>
     utcnow = (data_D + 10, 0),
     agora_str = (\<lambda>i. ''20240504120000''),
     strptime = (\<lambda>s. if s = ''2024-04-24'' then Some data_D else None),
     py_int = (\<lambda>s. if s = ''30'' then Some 30 else if s = ''5'' then Some 5 else None),
     secure_filename = (\<lambda>s. s),
     render_capa = (\<lambda>p. [''capa'']),
     timestamp_str = ''20240504_120000''\<rparr>"

definition ficheiro_sem_nome :: ficheiro where
  "ficheiro_sem_nome = \<lparr>f_filename = [], f_conteudo = Pdf []\<rparr>"

definition ficheiro_pdf :: ficheiro where
  "ficheiro_pdf = \<lparr>f_filename = ''Laudo.PDF'', f_conteudo = Pdf [''l1'', ''l2'']\<rparr>"

definition ficheiro_txt :: ficheiro where
  "ficheiro_txt = \<lparr>f_filename = ''notas.txt'', f_conteudo = Corrompido\<rparr>"

definition form_avanco :: form where
  "form_avanco = [(''nova_etapa'', ''Etapa livre''), (''descricao'', ''Nota'')]"

text \<open>
  Forms that create a case: of a registered type under a new number, of a type that is
  not registered, and under the number of the first case of the example.
\<close>

definition form_novo :: form where
  "form_novo =
    [(''numero_processo'', ''003/2024''), (''data_autuacao'', ''2024-04-24''),
     (''tipo'', ''Tomada de Conta Especial''), (''resumo_fatos'', ''Fatos''),
     (''prazo_inicial_dias'', ''30''), (''prorrogacao_dias'', ''5'')]"

definition form_inquerito :: form where
  "form_inquerito =
    [(''numero_processo'', ''004/2024''), (''data_autuacao'', ''2024-04-24''),
     (''tipo'', ''Inquerito''), (''resumo_fatos'', ''Fatos'')]"

definition form_repetido :: form where
  "form_repetido = [(''numero_processo'', ''001/2024'')]"

definition estado_vazio :: state where
  "estado_vazio =
    \<lparr>processos = [], andamentos = [], documentos = [], uploads = Map.empty, flashes = []\<rparr>"

text \<open>The record store of the example after the file of the second document is lost.\<close>

definition estado_sem_b :: state where
  "estado_sem_b = estado_exemplo\<lparr>uploads := (uploads estado_exemplo)(''b.pdf'' := None)\<rparr>"

section \<open>Properties\<close>

subsection \<open>The deadline count\<close>

lemma prazo_vence_eq:
  assumes "em_andamento p \<and> truthy_int (prazo_inicial_dias p) \<longrightarrow> prazo_representavel p"
  shows "prazo_vence hoje (hoje + 7) p =
     Inr (truthy_int (prazo_inicial_dias p) \<and> expiring_soon_spec p hoje)"
  using assms
  by (auto simp: prazo_vence_def expiring_soon_spec_def daysRemaining_spec_def truthy_int_def
      prazo_representavel_def or_zero_def date_plus_days_def timedelta_def date_add_def Let_def
      split: option.splits)

lemma contar_prazos_eq:
  assumes "\<forall>p \<in> set ps. prazo_vence hoje lim p = Inr (P p)"
  shows "contar_prazos hoje lim ps n = Inr (n + length (filter P ps))"
  using assms by (induction ps arbitrary: n) auto

lemma prazo_vence_sem_prazo:
  assumes "\<not> truthy_int (prazo_inicial_dias p)"
  shows "prazo_vence hoje lim p = Inr False"
  using assms by (simp add: prazo_vence_def)

lemma contar_prazos_salta:
  assumes "prazo_vence hoje lim p = Inr False"
  shows "contar_prazos hoje lim (ps @ p # qs) n = contar_prazos hoje lim (ps @ qs) n"
  using assms by (induction ps arbitrary: n) (auto split: sum.splits)

lemmas exemplo_defs =
  caso_exemplo_def data_D_def em_andamento_def truthy_int_def or_zero_def date_of_def
  prazo_representavel_def expiring_soon_spec_def daysRemaining_spec_def
  prazos_vencendo_def prazo_vence_def date_plus_days_def timedelta_def date_add_def

text \<open>
  C7, as the code has it. The dashboard counts a case exactly when its stage is neither
  Finalizado nor Arquivado, its initial deadline is set and is not 0, and
  0 \<le> daysRemaining < 7, where daysRemaining is the opening date plus the initial deadline
  plus the extension minus today. This holds when today plus seven days and the deadline
  of every case the loop computes are dates Python can hold; outside, the route raises.
  A case opened on day D with an initial deadline of 30 days and an extension of 5 has 2
  days remaining on day D+33 and -1 on day D+36, and is not expiring soon on the latter.
\<close>

theorem prazos_vencendo_conta:
  assumes "1 \<le> hoje + 7" and "hoje + 7 \<le> 3652059"
    and "\<forall>p \<in> set ps. em_andamento p \<and> truthy_int (prazo_inicial_dias p) \<longrightarrow> prazo_representavel p"
  shows "prazos_vencendo hoje ps =
      Inr (length (filter (\<lambda>p. truthy_int (prazo_inicial_dias p) \<and> expiring_soon_spec p hoje) ps))
    \<and> (\<forall>q D. date_of (data_autuacao q) = D \<and> prazo_inicial_dias q = Some 30 \<and>
          prorrogacao_dias q = Some 5 \<longrightarrow>
          daysRemaining_spec q (D + 33) = Some 2 \<and>
          daysRemaining_spec q (D + 36) = Some (- 1) \<and>
          \<not> expiring_soon_spec q (D + 36))"
proof -
  have lim: "date_plus_days hoje 7 = Inr (hoje + 7)"
    using assms(1,2) by (simp add: date_plus_days_def timedelta_def date_add_def)
  have "\<forall>p \<in> set ps. prazo_vence hoje (hoje + 7) p =
      Inr (truthy_int (prazo_inicial_dias p) \<and> expiring_soon_spec p hoje)"
    using assms(3) prazo_vence_eq by blast
  then have "contar_prazos hoje (hoje + 7) ps 0 =
      Inr (0 + length (filter (\<lambda>p. truthy_int (prazo_inicial_dias p) \<and> expiring_soon_spec p hoje) ps))"
    by (rule contar_prazos_eq)
  then have conta: "prazos_vencendo hoje ps =
      Inr (length (filter (\<lambda>p. truthy_int (prazo_inicial_dias p) \<and> expiring_soon_spec p hoje) ps))"
    by (simp add: prazos_vencendo_def lim)
  have exemplo: "\<forall>q D. date_of (data_autuacao q) = D \<and> prazo_inicial_dias q = Some 30 \<and>
          prorrogacao_dias q = Some 5 \<longrightarrow>
          daysRemaining_spec q (D + 33) = Some 2 \<and>
          daysRemaining_spec q (D + 36) = Some (- 1) \<and>
          \<not> expiring_soon_spec q (D + 36)"
    by (simp add: daysRemaining_spec_def expiring_soon_spec_def or_zero_def)
  from conta exemplo show ?thesis by (rule conjI)
qed

theorem prazos_vencendo_conta_witness:
  "prazos_vencendo (data_D + 33) [caso_exemplo (Some 30) (Some 5)] = Inr 1
   \<and> prazos_vencendo (data_D + 36) [caso_exemplo (Some 30) (Some 5)] = Inr 0
   \<and> daysRemaining_spec (caso_exemplo (Some 30) (Some 5)) (data_D + 33) = Some 2
   \<and> daysRemaining_spec (caso_exemplo (Some 30) (Some 5)) (data_D + 36) = Some (- 1)"
proof -
  have a: "1 \<le> (data_D + 33) + 7" "(data_D + 33) + 7 \<le> 3652059"
    and b: "1 \<le> (data_D + 36) + 7" "(data_D + 36) + 7 \<le> 3652059"
    by (simp_all add: data_D_def)
  have c: "\<forall>p \<in> set [caso_exemplo (Some 30) (Some 5)].
      em_andamento p \<and> truthy_int (prazo_inicial_dias p) \<longrightarrow> prazo_representavel p"
    by (simp add: exemplo_defs)
  show ?thesis
    using prazos_vencendo_conta [OF a c] prazos_vencendo_conta [OF b c]
    by (simp add: caso_exemplo_def em_andamento_def truthy_int_def or_zero_def date_of_def
        expiring_soon_spec_def daysRemaining_spec_def)
qed

text \<open>
  C7 as the specification words it fails: a case in its first stage, opened today with an
  initial deadline of 0 days and no extension, has 0 days remaining, and the dashboard
  does not count it.
\<close>

theorem prazos_vencendo_counterexample:
  "expiring_soon_spec (caso_exemplo (Some 0) (Some 0)) data_D
   \<and> daysRemaining_spec (caso_exemplo (Some 0) (Some 0)) data_D = Some 0
   \<and> prazos_vencendo data_D [caso_exemplo (Some 0) (Some 0)] = Inr 0"
  by (simp add: exemplo_defs)

text \<open>
  C9. A case whose initial deadline is 0 adds nothing to the count, as a case with no
  initial deadline: the loop passes over both, and the count is the one of the list
  without the case. This is so also when the formula puts the case within the seven
  days, as for a case in an open stage, opened today, with no extension.
\<close>

theorem prazo_zero_como_sem_prazo:
  assumes "prazo_inicial_dias p = Some 0"
  shows "prazo_vence hoje lim p = Inr False
    \<and> prazo_vence hoje lim (p\<lparr>prazo_inicial_dias := None\<rparr>) = Inr False
    \<and> prazos_vencendo hoje (ps @ p # qs) = prazos_vencendo hoje (ps @ qs)
    \<and> prazos_vencendo hoje (ps @ p\<lparr>prazo_inicial_dias := None\<rparr> # qs) = prazos_vencendo hoje (ps @ qs)
    \<and> (em_andamento p \<and> date_of (data_autuacao p) = hoje \<and> or_zero (prorrogacao_dias p) = 0
        \<longrightarrow> expiring_soon_spec p hoje)"
proof -
  have zero: "\<And>l. prazo_vence hoje l p = Inr False"
    using assms by (simp add: prazo_vence_sem_prazo truthy_int_def)
  have nenhum: "\<And>l. prazo_vence hoje l (p\<lparr>prazo_inicial_dias := None\<rparr>) = Inr False"
    by (simp add: prazo_vence_sem_prazo truthy_int_def)
  have c1: "prazos_vencendo hoje (ps @ p # qs) = prazos_vencendo hoje (ps @ qs)"
    by (simp add: prazos_vencendo_def contar_prazos_salta [OF zero] split: sum.splits)
  have c2: "prazos_vencendo hoje (ps @ p\<lparr>prazo_inicial_dias := None\<rparr> # qs)
      = prazos_vencendo hoje (ps @ qs)"
    by (simp add: prazos_vencendo_def contar_prazos_salta [OF nenhum] split: sum.splits)
  have c3: "em_andamento p \<and> date_of (data_autuacao p) = hoje \<and> or_zero (prorrogacao_dias p) = 0
        \<longrightarrow> expiring_soon_spec p hoje"
    using assms by (simp add: expiring_soon_spec_def daysRemaining_spec_def)
  from zero nenhum c1 c2 c3 show ?thesis by blast
qed

theorem prazo_zero_como_sem_prazo_witness:
  "prazo_inicial_dias (caso_exemplo (Some 0) None) = Some 0
   \<and> expiring_soon_spec (caso_exemplo (Some 0) None) data_D
   \<and> prazo_vence data_D (data_D + 7) (caso_exemplo (Some 0) None) = Inr False
   \<and> prazos_vencendo data_D [caso_exemplo (Some 3) None, caso_exemplo (Some 0) None] = Inr 1"
proof -
  have h: "prazo_inicial_dias (caso_exemplo (Some 0) None) = Some 0"
    by (simp add: caso_exemplo_def)
  have um: "prazos_vencendo data_D [caso_exemplo (Some 3) None] = Inr 1"
    by (simp add: exemplo_defs)
  show ?thesis
    using h um
      prazo_zero_como_sem_prazo [OF h, of data_D "data_D + 7" "[caso_exemplo (Some 3) None]" "[]"]
    by (simp add: caso_exemplo_def em_andamento_def or_zero_def date_of_def)
qed

subsection \<open>Deleting a case\<close>

lemma find_por_id:
  "find (\<lambda>p. p_id p = pid) ps = Some p \<Longrightarrow> p_id p = pid \<and> p \<in> set ps"
  by (induction ps) (auto split: if_splits)

lemma find_existe:
  "p \<in> set ps \<Longrightarrow> P p \<Longrightarrow> \<exists>q. find P ps = Some q"
  by (induction ps) auto

lemma excluir_processo_existente:
  assumes "p \<in> set (processos s)" and "p_id p = pid"
  shows "\<exists>s'. excluir_processo s pid = Inr (s', Redirect_index)"
proof -
  obtain q where q: "find (\<lambda>p. p_id p = pid) (processos s) = Some q"
    using find_existe [OF assms(1), of "\<lambda>p. p_id p = pid"] assms(2) by blast
  then show ?thesis
    by (simp add: excluir_processo_def Let_def)
qed

lemma excluir_processo_campos:
  assumes "excluir_processo s pid = Inr (s', r)"
  shows "processos s' = filter (\<lambda>p. p_id p \<noteq> pid) (processos s)"
    and "andamentos s' =
      filter (\<lambda>a. a_id a \<notin> set (map a_id (andamentos_de s pid))) (andamentos s)"
    and "documentos s' =
      filter (\<lambda>d. d_id d \<notin> set (map d_id (concat (map (documentos_de s) (andamentos_de s pid)))))
        (documentos s)"
    and "uploads s' = uploads s"
proof -
  from assms obtain q where q: "find (\<lambda>p. p_id p = pid) (processos s) = Some q"
    by (auto simp: excluir_processo_def split: option.splits)
  then have id: "p_id q = pid" by (rule find_por_id [THEN conjunct1])
  from assms q have s': "s' = s\<lparr>
      processos := filter (\<lambda>p. p_id p \<noteq> p_id q) (processos s),
      andamentos := filter (\<lambda>a. a_id a \<notin> set (map a_id (andamentos_de s (p_id q)))) (andamentos s),
      documentos := filter (\<lambda>d. d_id d \<notin> set (map d_id (concat (map (documentos_de s)
        (andamentos_de s (p_id q)))))) (documentos s),
      flashes := flashes s @ [Processo_excluido]\<rparr>"
    by (simp add: excluir_processo_def Let_def)
  show "processos s' = filter (\<lambda>p. p_id p \<noteq> pid) (processos s)"
    by (simp add: s' id)
  show "andamentos s' =
      filter (\<lambda>a. a_id a \<notin> set (map a_id (andamentos_de s pid))) (andamentos s)"
    by (simp add: s' id)
  show "documentos s' =
      filter (\<lambda>d. d_id d \<notin> set (map d_id (concat (map (documentos_de s) (andamentos_de s pid)))))
        (documentos s)"
    by (simp add: s' id)
  show "uploads s' = uploads s"
    by (simp add: s')
qed

lemma excluir_processo_andamentos:
  assumes "excluir_processo s pid = Inr (s', r)" and "a \<in> set (andamentos s')"
  shows "processo_id a \<noteq> pid"
proof
  assume "processo_id a = pid"
  moreover from assms have h: "a \<in> set (andamentos s)"
    "a_id a \<notin> set (map a_id (andamentos_de s pid))"
    by (simp_all add: excluir_processo_campos(2))
  ultimately have "a \<in> set (andamentos_de s pid)" by (simp add: andamentos_de_def)
  then have "a_id a \<in> a_id ` set (andamentos_de s pid)" by (rule imageI)
  with h(2) show False by simp
qed

lemma excluir_processo_documentos:
  assumes "excluir_processo s pid = Inr (s', r)" and "d \<in> set (documentos s')"
  shows "\<not> do_processo s pid d"
proof
  assume "do_processo s pid d"
  then obtain a where a: "a \<in> set (andamentos s)" "processo_id a = pid" "a_id a = andamento_id d"
    by (auto simp: do_processo_def)
  from assms have d: "d \<in> set (documentos s)"
    "d_id d \<notin> set (map d_id (concat (map (documentos_de s) (andamentos_de s pid))))"
    by (simp_all add: excluir_processo_campos(3))
  from a(1,2) have "a \<in> set (andamentos_de s pid)" by (simp add: andamentos_de_def)
  moreover from d(1) a(3) have "d \<in> set (documentos_de s a)" by (simp add: documentos_de_def)
  ultimately have "d \<in> set (concat (map (documentos_de s) (andamentos_de s pid)))"
    by auto
  then have "d_id d \<in> d_id ` set (concat (map (documentos_de s) (andamentos_de s pid)))"
    by (rule imageI)
  with d(2) show False by simp
qed

lemma excluir_processo_integridade:
  assumes ex: "excluir_processo s pid = Inr (s', r)" and int: "integridade s"
  shows "integridade s'"
proof -
  have a: "\<forall>a \<in> set (andamentos s'). \<exists>p \<in> set (processos s'). p_id p = processo_id a"
  proof
    fix a assume h: "a \<in> set (andamentos s')"
    then have n: "processo_id a \<noteq> pid" using ex by (rule excluir_processo_andamentos [rotated])
    from h have "a \<in> set (andamentos s)" by (simp add: excluir_processo_campos(2) [OF ex])
    then obtain p where p: "p \<in> set (processos s)" "p_id p = processo_id a"
      using int unfolding integridade_def by blast
    with n have "p \<in> set (processos s')" by (simp add: excluir_processo_campos(1) [OF ex])
    with p(2) show "\<exists>p \<in> set (processos s'). p_id p = processo_id a" by blast
  qed
  have d: "\<forall>d \<in> set (documentos s'). \<exists>a \<in> set (andamentos s'). a_id a = andamento_id d"
  proof
    fix d assume h: "d \<in> set (documentos s')"
    then have n: "\<not> do_processo s pid d" using ex by (rule excluir_processo_documentos [rotated])
    from h have "d \<in> set (documentos s)" by (simp add: excluir_processo_campos(3) [OF ex])
    then obtain a where a: "a \<in> set (andamentos s)" "a_id a = andamento_id d"
      using int unfolding integridade_def by blast
    have "a_id a \<notin> set (map a_id (andamentos_de s pid))"
    proof
      assume "a_id a \<in> set (map a_id (andamentos_de s pid))"
      then obtain b where "b \<in> set (andamentos s)" "processo_id b = pid" "a_id b = a_id a"
        by (auto simp: andamentos_de_def)
      with a(2) have "do_processo s pid d" by (auto simp: do_processo_def)
      with n show False by simp
    qed
    with a(1) have "a \<in> set (andamentos s')" by (simp add: excluir_processo_campos(2) [OF ex])
    with a(2) show "\<exists>a \<in> set (andamentos s'). a_id a = andamento_id d" by blast
  qed
  from a d show ?thesis by (simp add: integridade_def)
qed

text \<open>
  C8. Deleting a case that exists succeeds, and in the record store it leaves there is no
  case with that key, no entry of that case and no document that hung under an entry of
  that case; a store without orphans stays without orphans.
\<close>

theorem excluir_processo_cascata:
  assumes "p \<in> set (processos s)" and "p_id p = pid"
  shows "\<exists>s'. excluir_processo s pid = Inr (s', Redirect_index)
    \<and> (\<forall>q \<in> set (processos s'). p_id q \<noteq> pid)
    \<and> (\<forall>a \<in> set (andamentos s'). processo_id a \<noteq> pid)
    \<and> (\<forall>d \<in> set (documentos s'). \<not> do_processo s pid d)
    \<and> (integridade s \<longrightarrow> integridade s')"
proof -
  from assms obtain s' where ex: "excluir_processo s pid = Inr (s', Redirect_index)"
    using excluir_processo_existente by blast
  have "\<forall>q \<in> set (processos s'). p_id q \<noteq> pid"
    by (simp add: excluir_processo_campos(1) [OF ex])
  moreover have "\<forall>a \<in> set (andamentos s'). processo_id a \<noteq> pid"
    using excluir_processo_andamentos [OF ex] by blast
  moreover have "\<forall>d \<in> set (documentos s'). \<not> do_processo s pid d"
    using excluir_processo_documentos [OF ex] by blast
  moreover have "integridade s \<longrightarrow> integridade s'"
    using excluir_processo_integridade [OF ex] by blast
  ultimately show ?thesis using ex by blast
qed

theorem excluir_processo_cascata_witness:
  "caso_exemplo (Some 30) (Some 5) \<in> set (processos estado_exemplo)
   \<and> p_id (caso_exemplo (Some 30) (Some 5)) = 1
   \<and> integridade estado_exemplo
   \<and> (\<exists>s'. excluir_processo estado_exemplo 1 = Inr (s', Redirect_index)
        \<and> (\<forall>q \<in> set (processos s'). p_id q \<noteq> 1)
        \<and> (\<forall>a \<in> set (andamentos s'). processo_id a \<noteq> 1)
        \<and> (\<forall>d \<in> set (documentos s'). \<not> do_processo estado_exemplo 1 d)
        \<and> integridade s')"
proof -
  have h: "caso_exemplo (Some 30) (Some 5) \<in> set (processos estado_exemplo)"
    "p_id (caso_exemplo (Some 30) (Some 5)) = 1"
    by (simp_all add: estado_exemplo_def caso_exemplo_def)
  have i: "integridade estado_exemplo"
    by (simp add: integridade_def estado_exemplo_def caso_exemplo_def outro_caso_def)
  show ?thesis
    using h i excluir_processo_cascata [OF h] by blast
qed

lemma excluir_processo_exemplo:
  "excluir_processo estado_exemplo 1 = Inr (estado_exemplo\<lparr>
      processos := [outro_caso],
      andamentos := [\<lparr>a_id = 2, etapa = ''Autuado'', descricao = Some ''Processo instaurado.'',
          data = (data_D, 5), processo_id = 2\<rparr>],
      documentos := [\<lparr>d_id = 1, filename = ''a.pdf'', andamento_id = 2\<rparr>],
      flashes := [Processo_excluido]\<rparr>, Redirect_index)"
  by (simp add: excluir_processo_def estado_exemplo_def caso_exemplo_def outro_caso_def
      andamentos_de_def documentos_de_def)

subsection \<open>Attaching files\<close>

lemma tem_extensao_pdf_com_nome: "tem_extensao_pdf file \<Longrightarrow> com_nome file"
  by (auto simp: tem_extensao_pdf_def com_nome_def endswith_def lower_def)

lemma guardar_ficheiros_avisos:
  "snd (snd (guardar_ficheiros ev i fls (ups, nomes, avisos))) =
     avisos @ map (\<lambda>fl. Ficheiro_ignorado (f_filename fl)) (filter recusado fls)"
  by (induction fls arbitrary: i ups nomes avisos)
     (simp_all add: recusado_def com_nome_def tem_extensao_pdf_def ficheiro_bool_def Let_def)

lemma guardar_ficheiros_passo:
  "guardar_ficheiros ev i (fl # fls) (ups, nomes, avisos) =
     (if aceite fl then
        guardar_ficheiros ev (i + 1) fls
          (ups(secure_filename ev (agora_str ev i @ ''_'' @ f_filename fl) \<mapsto> f_conteudo fl),
           nomes @ [secure_filename ev (agora_str ev i @ ''_'' @ f_filename fl)], avisos)
      else if recusado fl then
        guardar_ficheiros ev (i + 1) fls (ups, nomes, avisos @ [Ficheiro_ignorado (f_filename fl)])
      else guardar_ficheiros ev (i + 1) fls (ups, nomes, avisos))"
  by (simp add: aceite_def recusado_def com_nome_def tem_extensao_pdf_def ficheiro_bool_def Let_def)

lemma guardar_ficheiros_nomes:
  "\<exists>novos. fst (snd (guardar_ficheiros ev i fls (ups, nomes, avisos))) = nomes @ novos
     \<and> length novos = length (filter aceite fls)"
proof (induction fls arbitrary: i ups nomes avisos)
  case Nil
  then show ?case by simp
next
  case (Cons fl fls)
  show ?case
  proof (cases "aceite fl")
    case True
    let ?n = "secure_filename ev (agora_str ev i @ ''_'' @ f_filename fl)"
    from Cons [of "i + 1" "ups(?n \<mapsto> f_conteudo fl)" "nomes @ [?n]" avisos]
    obtain novos where
      "fst (snd (guardar_ficheiros ev (i + 1) fls (ups(?n \<mapsto> f_conteudo fl), nomes @ [?n], avisos)))
         = (nomes @ [?n]) @ novos" "length novos = length (filter aceite fls)"
      by blast
    with True show ?thesis
      by (simp only: guardar_ficheiros_passo) simp
  next
    case False
    from Cons [of "i + 1" ups nomes avisos]
      Cons [of "i + 1" ups nomes "avisos @ [Ficheiro_ignorado (f_filename fl)]"]
    show ?thesis using False
      by (simp only: guardar_ficheiros_passo) simp
  qed
qed

lemma guardar_ficheiros_dom:
  assumes "set nomes \<subseteq> dom ups"
  shows "set (fst (snd (guardar_ficheiros ev i fls (ups, nomes, avisos))))
     \<subseteq> dom (fst (guardar_ficheiros ev i fls (ups, nomes, avisos)))"
  using assms
proof (induction fls arbitrary: i ups nomes avisos)
  case Nil
  then show ?case by simp
next
  case (Cons fl fls)
  show ?case
  proof (cases "aceite fl")
    case True
    let ?n = "secure_filename ev (agora_str ev i @ ''_'' @ f_filename fl)"
    from Cons.prems have "set (nomes @ [?n]) \<subseteq> dom (ups(?n \<mapsto> f_conteudo fl))"
      by auto
    then have "set (fst (snd (guardar_ficheiros ev (i + 1) fls
          (ups(?n \<mapsto> f_conteudo fl), nomes @ [?n], avisos))))
        \<subseteq> dom (fst (guardar_ficheiros ev (i + 1) fls
          (ups(?n \<mapsto> f_conteudo fl), nomes @ [?n], avisos)))"
      by (rule Cons.IH)
    with True show ?thesis
      by (simp only: guardar_ficheiros_passo if_True)
  next
    case False
    from Cons.prems Cons.IH [of nomes ups "i + 1"] show ?thesis using False
      by (simp only: guardar_ficheiros_passo if_False split: if_splits) simp
  qed
qed

lemma novos_documentos_props:
  "length (novos_documentos k aid nomes) = length nomes
   \<and> map filename (novos_documentos k aid nomes) = nomes
   \<and> (\<forall>d \<in> set (novos_documentos k aid nomes). andamento_id d = aid)"
  by (induction nomes arbitrary: k) auto

lemma guardar_vazio:
  assumes "f_filename fl = []"
  shows "guardar_ficheiros ev i (fl # fls) acc = guardar_ficheiros ev (i + 1) fls acc"
  using assms by (cases acc) simp

subsection \<open>Advancing the stage\<close>

lemma avancar_etapa_sucesso:
  assumes "find (\<lambda>p. p_id p = pid) (processos s) = Some p"
    and "form_get f ''nova_etapa'' = Some nova" and "nova \<noteq> []"
  shows "avancar_etapa ev s pid f fls =
    Inr (s\<lparr>
      processos := map (\<lambda>p. if p_id p = pid then set_status ev nova p else p) (processos s),
      andamentos := andamentos s @
        [\<lparr>a_id = next_id (map a_id (andamentos s)), etapa = nova,
          descricao = form_get f ''descricao'', data = utcnow ev, processo_id = pid\<rparr>],
      documentos := documentos s @
        novos_documentos (next_id (map d_id (documentos s))) (next_id (map a_id (andamentos s)))
          (fst (snd (guardar_ficheiros ev 0 fls (uploads s, [], [])))),
      uploads := fst (guardar_ficheiros ev 0 fls (uploads s, [], [])),
      flashes := flashes s @ snd (snd (guardar_ficheiros ev 0 fls (uploads s, [], [])))
        @ [Processo_avancado nova]\<rparr>,
      Redirect_detalhes_processo pid)"
  using assms
  by (simp add: avancar_etapa_def truthy_str_def Let_def split: prod.splits)

lemma avancar_etapa_nao_encontrado:
  assumes "\<forall>p \<in> set (processos s). p_id p \<noteq> pid"
  shows "avancar_etapa ev s pid f fls = Inl NotFound"
proof -
  have "find (\<lambda>p. p_id p = pid) (processos s) = None"
    using assms by (simp add: find_None_iff)
  then show ?thesis by (simp add: avancar_etapa_def)
qed

lemma avancar_etapa_sem_etapa:
  assumes "find (\<lambda>p. p_id p = pid) (processos s) = Some p"
    and "\<not> truthy_str (form_get f ''nova_etapa'')"
  shows "avancar_etapa ev s pid f fls =
    Inr (s\<lparr>flashes := flashes s @ [Etapa_necessaria]\<rparr>, Redirect_detalhes_processo pid)"
  using assms by (simp add: avancar_etapa_def Let_def)

lemma guardar_ficheiros_relogio:
  assumes "\<forall>j. agora_str ev' (i' + j) = agora_str ev (i + j)"
    and "secure_filename ev' = secure_filename ev"
  shows "guardar_ficheiros ev' i' fls acc = guardar_ficheiros ev i fls acc"
  using assms
proof (induction fls arbitrary: i i' acc)
  case Nil
  then show ?case by simp
next
  case (Cons fl fls)
  obtain ups nomes avisos where acc: "acc = (ups, nomes, avisos)" by (cases acc) auto
  from Cons.prems(1) have z: "agora_str ev' i' = agora_str ev i"
    by (metis add.right_neutral)
  from Cons.prems(1) have "\<forall>j. agora_str ev' ((i' + 1) + j) = agora_str ev ((i + 1) + j)"
    by (metis add.assoc add.commute)
  then have ih: "\<And>a. guardar_ficheiros ev' (i' + 1) fls a = guardar_ficheiros ev (i + 1) fls a"
    using Cons.IH Cons.prems(2) by blast
  show ?case
    unfolding acc by (simp only: guardar_ficheiros_passo ih z Cons.prems(2))
qed

lemma guardar_ficheiros_sem_nome:
  assumes "f_filename vazio = []"
  shows "guardar_ficheiros ev i (xs @ vazio # ys) acc =
    guardar_ficheiros (sem_leitura ev (i + length xs)) i (xs @ ys) acc"
proof (induction xs arbitrary: i acc)
  case Nil
  have "guardar_ficheiros (sem_leitura ev i) i ys acc = guardar_ficheiros ev (i + 1) ys acc"
    by (rule guardar_ficheiros_relogio) (simp_all add: sem_leitura_def)
  then show ?case using assms by (simp add: guardar_vazio)
next
  case (Cons x xs)
  obtain ups nomes avisos where acc: "acc = (ups, nomes, avisos)" by (cases acc) auto
  have k: "sem_leitura ev (i + length (x # xs)) = sem_leitura ev ((i + 1) + length xs)"
    by simp
  have z: "agora_str (sem_leitura ev ((i + 1) + length xs)) i = agora_str ev i"
    "secure_filename (sem_leitura ev ((i + 1) + length xs)) = secure_filename ev"
    by (simp_all add: sem_leitura_def)
  show ?case
    unfolding acc append_Cons k
    by (simp only: guardar_ficheiros_passo Cons.IH z)
qed

lemma filter_aceite: "filter aceite fls = filter tem_extensao_pdf fls"
  by (rule filter_cong) (auto simp: aceite_def tem_extensao_pdf_com_nome)

lemma conta_com_nome:
  "length (filter com_nome fls) = length (filter tem_extensao_pdf fls) + length (filter recusado fls)"
  by (induction fls) (auto simp: recusado_def dest: tem_extensao_pdf_com_nome)

lemma find_Some_existe:
  assumes "p \<in> set ps" and "p_id p = pid"
  shows "\<exists>q. find (\<lambda>p. p_id p = pid) ps = Some q"
  using find_existe [OF assms(1), of "\<lambda>p. p_id p = pid"] assms(2) by blast

lemma set_status_campos:
  "status (set_status ev nova p) = nova" "p_id (set_status ev nova p) = p_id p"
  by (simp_all add: set_status_def)

lemma map_set_status:
  assumes "q \<in> set (map (\<lambda>p. if p_id p = pid then set_status ev nova p else p) ps)"
    and "p_id q = pid"
  shows "status q = nova"
proof -
  from assms(1) have "q \<in> (\<lambda>p. if p_id p = pid then set_status ev nova p else p) ` set ps"
    by (simp only: set_map)
  then obtain p where p: "q = (if p_id p = pid then set_status ev nova p else p)"
    by (rule imageE)
  show ?thesis
  proof (cases "p_id p = pid")
    case True
    with p show ?thesis by (simp add: set_status_campos)
  next
    case False
    with p assms(2) show ?thesis by simp
  qed
qed

text \<open>
  C2. For a key that no case has, the route ends in 404 Not Found and writes nothing.
  For a case that exists and a stage that is missing or empty, it flashes the error and
  changes nothing else. For a case that exists and a stage name that is not empty, it
  succeeds: the case has that stage, the other cases are as they were, and exactly one
  entry is appended, of that stage and that case. Nothing asks the name to be a stage of
  the workflow of the case.
\<close>

theorem avancar_etapa_estado:
  shows "((\<forall>p \<in> set (processos s). p_id p \<noteq> pid) \<longrightarrow>
        avancar_etapa ev s pid f fls = Inl NotFound)
    \<and> ((\<exists>p \<in> set (processos s). p_id p = pid) \<and>
        (form_get f ''nova_etapa'' = None \<or> form_get f ''nova_etapa'' = Some []) \<longrightarrow>
        avancar_etapa ev s pid f fls =
          Inr (s\<lparr>flashes := flashes s @ [Etapa_necessaria]\<rparr>, Redirect_detalhes_processo pid))
    \<and> ((\<exists>p \<in> set (processos s). p_id p = pid) \<and>
        form_get f ''nova_etapa'' = Some nova \<and> nova \<noteq> [] \<longrightarrow>
        (\<exists>s' a. avancar_etapa ev s pid f fls = Inr (s', Redirect_detalhes_processo pid)
          \<and> processos s' =
              map (\<lambda>p. if p_id p = pid then set_status ev nova p else p) (processos s)
          \<and> (\<forall>p \<in> set (processos s'). p_id p = pid \<longrightarrow> status p = nova)
          \<and> andamentos s' = andamentos s @ [a]
          \<and> etapa a = nova \<and> processo_id a = pid \<and> descricao a = form_get f ''descricao''))"
proof (intro conjI impI)
  assume "\<forall>p \<in> set (processos s). p_id p \<noteq> pid"
  then show "avancar_etapa ev s pid f fls = Inl NotFound"
    by (rule avancar_etapa_nao_encontrado)
next
  assume h: "(\<exists>p \<in> set (processos s). p_id p = pid) \<and>
    (form_get f ''nova_etapa'' = None \<or> form_get f ''nova_etapa'' = Some [])"
  then obtain q where q: "find (\<lambda>p. p_id p = pid) (processos s) = Some q"
    using find_Some_existe by blast
  from h have "\<not> truthy_str (form_get f ''nova_etapa'')"
    by (auto simp: truthy_str_def)
  with q show "avancar_etapa ev s pid f fls =
      Inr (s\<lparr>flashes := flashes s @ [Etapa_necessaria]\<rparr>, Redirect_detalhes_processo pid)"
    by (rule avancar_etapa_sem_etapa)
next
  assume h: "(\<exists>p \<in> set (processos s). p_id p = pid) \<and>
    form_get f ''nova_etapa'' = Some nova \<and> nova \<noteq> []"
  then obtain q where q: "find (\<lambda>p. p_id p = pid) (processos s) = Some q"
    using find_Some_existe by blast
  from h have n: "form_get f ''nova_etapa'' = Some nova" "nova \<noteq> []" by simp_all
  let ?a = "\<lparr>a_id = next_id (map a_id (andamentos s)), etapa = nova,
          descricao = form_get f ''descricao'', data = utcnow ev, processo_id = pid\<rparr>"
  let ?g = "guardar_ficheiros ev 0 fls (uploads s, [], [])"
  let ?s' = "s\<lparr>
      processos := map (\<lambda>p. if p_id p = pid then set_status ev nova p else p) (processos s),
      andamentos := andamentos s @ [?a],
      documentos := documentos s @
        novos_documentos (next_id (map d_id (documentos s))) (next_id (map a_id (andamentos s)))
          (fst (snd ?g)),
      uploads := fst ?g,
      flashes := flashes s @ snd (snd ?g) @ [Processo_avancado nova]\<rparr>"
  have r: "avancar_etapa ev s pid f fls = Inr (?s', Redirect_detalhes_processo pid)"
    by (rule avancar_etapa_sucesso [OF q n])
  have p: "processos ?s' =
      map (\<lambda>p. if p_id p = pid then set_status ev nova p else p) (processos s)"
    by simp
  have st: "\<forall>p \<in> set (processos ?s'). p_id p = pid \<longrightarrow> status p = nova"
    unfolding p using map_set_status by blast
  have an: "andamentos ?s' = andamentos s @ [?a]"
    by simp
  have ca: "etapa ?a = nova \<and> processo_id ?a = pid \<and> descricao ?a = form_get f ''descricao''"
    by simp
  from r p st an ca
  show "\<exists>s' a. avancar_etapa ev s pid f fls = Inr (s', Redirect_detalhes_processo pid)
          \<and> processos s' =
              map (\<lambda>p. if p_id p = pid then set_status ev nova p else p) (processos s)
          \<and> (\<forall>p \<in> set (processos s'). p_id p = pid \<longrightarrow> status p = nova)
          \<and> andamentos s' = andamentos s @ [a]
          \<and> etapa a = nova \<and> processo_id a = pid \<and> descricao a = form_get f ''descricao''"
    by blast
qed

theorem avancar_etapa_estado_witness:
  "7 \<notin> set (map p_id (processos estado_exemplo))
   \<and> avancar_etapa env_exemplo estado_exemplo 7 form_avanco [] = Inl NotFound
   \<and> (\<exists>p \<in> set (processos estado_exemplo). p_id p = 1)
   \<and> avancar_etapa env_exemplo estado_exemplo 1 [(''nova_etapa'', [])] [] =
        Inr (estado_exemplo\<lparr>flashes := [Etapa_necessaria]\<rparr>, Redirect_detalhes_processo 1)
   \<and> form_get form_avanco ''nova_etapa'' = Some ''Etapa livre''
   \<and> ''Etapa livre'' \<notin> set (workflows_get ''PAD'' [])
   \<and> (\<exists>s' a. avancar_etapa env_exemplo estado_exemplo 1 form_avanco [] =
          Inr (s', Redirect_detalhes_processo 1)
        \<and> (\<forall>p \<in> set (processos s'). p_id p = 1 \<longrightarrow> status p = ''Etapa livre'')
        \<and> andamentos s' = andamentos estado_exemplo @ [a]
        \<and> etapa a = ''Etapa livre'' \<and> processo_id a = 1)"
proof -
  have a: "\<forall>p \<in> set (processos estado_exemplo). p_id p \<noteq> 7"
    by (simp add: estado_exemplo_def caso_exemplo_def outro_caso_def)
  have b: "\<exists>p \<in> set (processos estado_exemplo). p_id p = 1"
    by (simp add: estado_exemplo_def caso_exemplo_def outro_caso_def)
  have c: "form_get [(''nova_etapa'', [])] ''nova_etapa'' = Some []"
    by (simp add: form_get_def)
  have d: "form_get form_avanco ''nova_etapa'' = Some ''Etapa livre''"
    by (simp add: form_get_def form_avanco_def)
  have e: "''Etapa livre'' \<noteq> []" by simp
  have w: "''Etapa livre'' \<notin> set (workflows_get ''PAD'' [])"
    by (simp add: workflows_get_def WORKFLOWS_def)
  have f: "flashes estado_exemplo = []" by (simp add: estado_exemplo_def)
  note t1 = avancar_etapa_estado [of estado_exemplo 7 env_exemplo form_avanco "[]" "[]",
      THEN conjunct1, THEN mp, OF a]
  note t2 = avancar_etapa_estado [of estado_exemplo 1 env_exemplo "[(''nova_etapa'', [])]" "[]" "[]",
      THEN conjunct2, THEN conjunct1, THEN mp, OF conjI [OF b disjI2 [OF c]]]
  note t3 = avancar_etapa_estado [of estado_exemplo 1 env_exemplo form_avanco "[]" "''Etapa livre''",
      THEN conjunct2, THEN conjunct2, THEN mp, OF conjI [OF b conjI [OF d e]]]
  from t3 have t3': "\<exists>s' a. avancar_etapa env_exemplo estado_exemplo 1 form_avanco [] =
          Inr (s', Redirect_detalhes_processo 1)
        \<and> (\<forall>p \<in> set (processos s'). p_id p = 1 \<longrightarrow> status p = ''Etapa livre'')
        \<and> andamentos s' = andamentos estado_exemplo @ [a]
        \<and> etapa a = ''Etapa livre'' \<and> processo_id a = 1"
    by blast
  have a': "7 \<notin> set (map p_id (processos estado_exemplo))"
    using a by auto
  from a' t1 b t2 d w t3' show ?thesis unfolding f append_Nil by blast
qed

lemma avancar_etapa_cong:
  assumes "utcnow ev' = utcnow ev"
    and "guardar_ficheiros ev' 0 fls' (uploads s, [], []) = guardar_ficheiros ev 0 fls (uploads s, [], [])"
  shows "avancar_etapa ev' s pid f fls' = avancar_etapa ev s pid f fls"
proof -
  have h: "set_status ev' = set_status ev"
    by (intro ext) (simp add: set_status_def assms(1))
  show ?thesis
    unfolding avancar_etapa_def h assms by (rule refl)
qed

lemmas avanco_defs =
  estado_exemplo_def caso_exemplo_def outro_caso_def env_exemplo_def form_avanco_def
  ficheiro_pdf_def ficheiro_txt_def ficheiro_sem_nome_def

lemma tipos_exemplo:
  "tem_extensao_pdf ficheiro_pdf" "com_nome ficheiro_pdf"
  "\<not> tem_extensao_pdf ficheiro_txt" "com_nome ficheiro_txt"
  "\<not> tem_extensao_pdf ficheiro_sem_nome" "\<not> com_nome ficheiro_sem_nome"
  by code_simp+

lemma avancar_exemplo_sem_anexos:
  "avancar_etapa env_exemplo estado_exemplo 1 form_avanco [] =
     Inr (estado_exemplo\<lparr>
       processos := [(caso_exemplo (Some 30) (Some 5))\<lparr>status := ''Etapa livre'',
          data_atualizacao := (data_D + 10, 0)\<rparr>, outro_caso],
       andamentos := andamentos estado_exemplo @
         [\<lparr>a_id = 5, etapa = ''Etapa livre'', descricao = Some ''Nota'',
           data = (data_D + 10, 0), processo_id = 1\<rparr>],
       flashes := [Processo_avancado ''Etapa livre'']\<rparr>, Redirect_detalhes_processo 1)"
  by (simp add: avancar_etapa_def avanco_defs form_get_def truthy_str_def next_id_def
      set_status_def Let_def)

text \<open>
  C5, as the code has it. Of the attached files whose name is not empty, those whose name
  ends in .pdf (in either case) become one document each, linked to the new entry and
  saved in the upload folder, and each of the others is flashed one warning; a file with
  an empty name is neither. The request succeeds whatever is attached.
\<close>

theorem avancar_etapa_anexos:
  assumes "p \<in> set (processos s)" and "p_id p = pid"
    and "form_get f ''nova_etapa'' = Some nova" and "nova \<noteq> []"
  shows "\<exists>s' a novos. avancar_etapa ev s pid f fls = Inr (s', Redirect_detalhes_processo pid)
    \<and> andamentos s' = andamentos s @ [a]
    \<and> documentos s' = documentos s @ novos
    \<and> length novos = length (filter tem_extensao_pdf fls)
    \<and> (\<forall>d \<in> set novos. andamento_id d = a_id a \<and> filename d \<in> dom (uploads s'))
    \<and> flashes s' = flashes s
        @ map (\<lambda>fl. Ficheiro_ignorado (f_filename fl)) (filter recusado fls)
        @ [Processo_avancado nova]
    \<and> length (filter recusado fls) =
        length (filter com_nome fls) - length (filter tem_extensao_pdf fls)"
proof -
  obtain q where q: "find (\<lambda>p. p_id p = pid) (processos s) = Some q"
    using find_Some_existe [OF assms(1,2)] by blast
  let ?g = "guardar_ficheiros ev 0 fls (uploads s, [], [])"
  let ?aid = "next_id (map a_id (andamentos s))"
  let ?a = "\<lparr>a_id = ?aid, etapa = nova,
          descricao = form_get f ''descricao'', data = utcnow ev, processo_id = pid\<rparr>"
  let ?novos = "novos_documentos (next_id (map d_id (documentos s))) ?aid (fst (snd ?g))"
  let ?s' = "s\<lparr>
      processos := map (\<lambda>p. if p_id p = pid then set_status ev nova p else p) (processos s),
      andamentos := andamentos s @ [?a],
      documentos := documentos s @ ?novos,
      uploads := fst ?g,
      flashes := flashes s @ snd (snd ?g) @ [Processo_avancado nova]\<rparr>"
  have r: "avancar_etapa ev s pid f fls = Inr (?s', Redirect_detalhes_processo pid)"
    by (rule avancar_etapa_sucesso [OF q assms(3,4)])
  have an: "andamentos ?s' = andamentos s @ [?a]" by simp
  have dc: "documentos ?s' = documentos s @ ?novos" by simp
  obtain nn where nn: "fst (snd ?g) = [] @ nn" "length nn = length (filter aceite fls)"
    using guardar_ficheiros_nomes [of ev 0 fls "uploads s" "[]" "[]"] by blast
  have ln: "length ?novos = length (filter tem_extensao_pdf fls)"
    using nn by (simp add: novos_documentos_props filter_aceite)
  have "set ([]::string list) \<subseteq> dom (uploads s)" by simp
  then have dom: "set (fst (snd ?g)) \<subseteq> dom (fst ?g)"
    by (rule guardar_ficheiros_dom)
  have lk: "\<forall>d \<in> set ?novos. andamento_id d = a_id ?a \<and> filename d \<in> dom (uploads ?s')"
  proof
    fix d assume d: "d \<in> set ?novos"
    then have "filename d \<in> set (map filename ?novos)" by simp
    then have "filename d \<in> set (fst (snd ?g))" by (simp only: novos_documentos_props)
    with dom have "filename d \<in> dom (fst ?g)" by blast
    moreover from d have "andamento_id d = ?aid" using novos_documentos_props by blast
    ultimately show "andamento_id d = a_id ?a \<and> filename d \<in> dom (uploads ?s')" by simp
  qed
  have fl: "flashes ?s' = flashes s
        @ map (\<lambda>fl. Ficheiro_ignorado (f_filename fl)) (filter recusado fls)
        @ [Processo_avancado nova]"
    by (simp add: guardar_ficheiros_avisos)
  have ct: "length (filter recusado fls) =
        length (filter com_nome fls) - length (filter tem_extensao_pdf fls)"
    by (simp add: conta_com_nome)
  from r an dc ln lk fl ct show ?thesis by blast
qed

theorem avancar_etapa_anexos_witness:
  "caso_exemplo (Some 30) (Some 5) \<in> set (processos estado_exemplo)
   \<and> form_get form_avanco ''nova_etapa'' = Some ''Etapa livre''
   \<and> length (filter tem_extensao_pdf [ficheiro_pdf, ficheiro_txt, ficheiro_sem_nome]) = 1
   \<and> length (filter com_nome [ficheiro_pdf, ficheiro_txt, ficheiro_sem_nome]) = 2
   \<and> (\<exists>s' a novos.
        avancar_etapa env_exemplo estado_exemplo 1 form_avanco
          [ficheiro_pdf, ficheiro_txt, ficheiro_sem_nome] = Inr (s', Redirect_detalhes_processo 1)
        \<and> andamentos s' = andamentos estado_exemplo @ [a]
        \<and> documentos s' = documentos estado_exemplo @ novos
        \<and> length novos = 1
        \<and> (\<forall>d \<in> set novos. andamento_id d = a_id a \<and> filename d \<in> dom (uploads s'))
        \<and> flashes s' = [Ficheiro_ignorado ''notas.txt'', Processo_avancado ''Etapa livre''])"
proof -
  have h: "caso_exemplo (Some 30) (Some 5) \<in> set (processos estado_exemplo)"
    "p_id (caso_exemplo (Some 30) (Some 5)) = 1"
    "form_get form_avanco ''nova_etapa'' = Some ''Etapa livre''" "''Etapa livre'' \<noteq> []"
    by (simp_all add: estado_exemplo_def caso_exemplo_def form_get_def form_avanco_def)
  have k: "filter tem_extensao_pdf [ficheiro_pdf, ficheiro_txt, ficheiro_sem_nome] = [ficheiro_pdf]"
    "filter com_nome [ficheiro_pdf, ficheiro_txt, ficheiro_sem_nome] = [ficheiro_pdf, ficheiro_txt]"
    "filter recusado [ficheiro_pdf, ficheiro_txt, ficheiro_sem_nome] = [ficheiro_txt]"
    by (simp_all add: tipos_exemplo recusado_def)
  have f: "flashes estado_exemplo = []" "f_filename ficheiro_txt = ''notas.txt''"
    by (simp_all add: estado_exemplo_def ficheiro_txt_def)
  show ?thesis
    using h(1,3)
      avancar_etapa_anexos [OF h, of env_exemplo "[ficheiro_pdf, ficheiro_txt, ficheiro_sem_nome]"]
    unfolding k by (simp add: f)
qed

text \<open>
  C5 as the specification words it fails: of one attached file, whose name is empty, none
  has the extension, so one warning is due; the request flashes only its success.
\<close>

theorem avancar_etapa_anexos_counterexample:
  "length [ficheiro_sem_nome] - length (filter tem_extensao_pdf [ficheiro_sem_nome]) = 1
   \<and> avancar_etapa env_exemplo estado_exemplo 1 form_avanco [ficheiro_sem_nome] =
     Inr (estado_exemplo\<lparr>
       processos := [(caso_exemplo (Some 30) (Some 5))\<lparr>status := ''Etapa livre'',
          data_atualizacao := (data_D + 10, 0)\<rparr>, outro_caso],
       andamentos := andamentos estado_exemplo @
         [\<lparr>a_id = 5, etapa = ''Etapa livre'', descricao = Some ''Nota'',
           data = (data_D + 10, 0), processo_id = 1\<rparr>],
       flashes := [Processo_avancado ''Etapa livre'']\<rparr>, Redirect_detalhes_processo 1)"
proof -
  have "guardar_ficheiros env_exemplo 0 [ficheiro_sem_nome] (uploads estado_exemplo, [], [])
      = guardar_ficheiros env_exemplo 0 [] (uploads estado_exemplo, [], [])"
    by (simp add: ficheiro_sem_nome_def ficheiro_bool_def)
  then have "avancar_etapa env_exemplo estado_exemplo 1 form_avanco [ficheiro_sem_nome]
      = avancar_etapa env_exemplo estado_exemplo 1 form_avanco []"
    by (rule avancar_etapa_cong [OF refl])
  then show ?thesis
    using avancar_exemplo_sem_anexos by (simp add: tipos_exemplo)
qed

text \<open>
  C10. A part with an empty file name leaves what the loop carries as it was: no file
  saved, no document, no warning. The request gives what it gives without the part (the
  clock being read for the files that remain), while a part with a name that does not
  end in .pdf adds exactly its warning.
\<close>

theorem anexo_sem_nome:
  assumes "f_filename vazio = []"
  shows "guardar_ficheiros ev i (vazio # fls) acc = guardar_ficheiros ev (i + 1) fls acc
    \<and> avancar_etapa ev s pid f (xs @ vazio # ys) =
        avancar_etapa (sem_leitura ev (length xs)) s pid f (xs @ ys)
    \<and> avancar_etapa ev s pid f [vazio] = avancar_etapa ev s pid f []
    \<and> (com_nome outro \<and> \<not> tem_extensao_pdf outro \<longrightarrow>
        guardar_ficheiros ev i (outro # fls) (ups, nomes, avisos) =
          guardar_ficheiros ev (i + 1) fls
            (ups, nomes, avisos @ [Ficheiro_ignorado (f_filename outro)]))"
proof -
  have a: "guardar_ficheiros ev i (vazio # fls) acc = guardar_ficheiros ev (i + 1) fls acc"
    using assms by (rule guardar_vazio)
  have "guardar_ficheiros (sem_leitura ev (length xs)) 0 (xs @ ys) (uploads s, [], [])
      = guardar_ficheiros ev 0 (xs @ vazio # ys) (uploads s, [], [])"
    using guardar_ficheiros_sem_nome [OF assms, of ev 0 xs ys] by simp
  moreover have "utcnow (sem_leitura ev (length xs)) = utcnow ev"
    by (simp add: sem_leitura_def)
  ultimately have b: "avancar_etapa ev s pid f (xs @ vazio # ys) =
        avancar_etapa (sem_leitura ev (length xs)) s pid f (xs @ ys)"
    using avancar_etapa_cong by metis
  have "guardar_ficheiros ev 0 [vazio] (uploads s, [], [])
      = guardar_ficheiros ev 0 [] (uploads s, [], [])"
    using assms by (simp add: guardar_vazio)
  then have c: "avancar_etapa ev s pid f [vazio] = avancar_etapa ev s pid f []"
    by (rule avancar_etapa_cong [OF refl])
  have d: "com_nome outro \<and> \<not> tem_extensao_pdf outro \<longrightarrow>
        guardar_ficheiros ev i (outro # fls) (ups, nomes, avisos) =
          guardar_ficheiros ev (i + 1) fls
            (ups, nomes, avisos @ [Ficheiro_ignorado (f_filename outro)])"
    by (simp only: guardar_ficheiros_passo) (simp add: aceite_def recusado_def)
  from a b c d show ?thesis by blast
qed

theorem anexo_sem_nome_witness:
  "f_filename ficheiro_sem_nome = []
   \<and> avancar_etapa env_exemplo estado_exemplo 1 form_avanco [ficheiro_sem_nome] =
     Inr (estado_exemplo\<lparr>
       processos := [(caso_exemplo (Some 30) (Some 5))\<lparr>status := ''Etapa livre'',
          data_atualizacao := (data_D + 10, 0)\<rparr>, outro_caso],
       andamentos := andamentos estado_exemplo @
         [\<lparr>a_id = 5, etapa = ''Etapa livre'', descricao = Some ''Nota'',
           data = (data_D + 10, 0), processo_id = 1\<rparr>],
       flashes := [Processo_avancado ''Etapa livre'']\<rparr>, Redirect_detalhes_processo 1)
   \<and> com_nome ficheiro_txt \<and> \<not> tem_extensao_pdf ficheiro_txt
   \<and> guardar_ficheiros env_exemplo 0 [ficheiro_txt, ficheiro_sem_nome] (Map.empty, [], []) =
       (Map.empty, [], [Ficheiro_ignorado ''notas.txt''])"
proof -
  have h: "f_filename ficheiro_sem_nome = []" by (simp add: ficheiro_sem_nome_def)
  note t1 = anexo_sem_nome [OF h, where ev = env_exemplo and s = estado_exemplo and pid = 1
      and f = form_avanco, THEN conjunct2, THEN conjunct2, THEN conjunct1]
  note t2 = anexo_sem_nome [OF h, where ev = env_exemplo and i = 1 and fls = "[]"
      and acc = "(Map.empty, [], [Ficheiro_ignorado ''notas.txt''])", THEN conjunct1]
  note t3 = anexo_sem_nome [OF h, where ev = env_exemplo and i = 0 and fls = "[ficheiro_sem_nome]"
      and outro = ficheiro_txt and ups = Map.empty and nomes = "[]" and avisos = "[]",
      THEN conjunct2, THEN conjunct2, THEN conjunct2]
  have n: "f_filename ficheiro_txt = ''notas.txt''" by (simp add: ficheiro_txt_def)
  have g: "guardar_ficheiros env_exemplo 0 [ficheiro_txt, ficheiro_sem_nome] (Map.empty, [], []) =
       (Map.empty, [], [Ficheiro_ignorado ''notas.txt''])"
    using t2 t3 by (simp add: tipos_exemplo n)
  from t1 g show ?thesis
    using avancar_exemplo_sem_anexos by (simp add: h tipos_exemplo)
qed

subsection \<open>Creating a case\<close>

lemma workflows_get_nao_vazio: "workflows_get t [''Autuado''] \<noteq> []"
  by (simp add: workflows_get_def WORKFLOWS_def)

lemma find_numero_None:
  "(find (\<lambda>p. numero_processo p = n) (processos s) = None) = (n \<notin> set (numeros s))"
  by (auto simp: find_None_iff numeros_def)

lemma quantos_zero: "(quantos s n = 0) = (n \<notin> set (numeros s))"
  by (auto simp: quantos_def numeros_def filter_empty_conv)

lemma preparar_existente:
  assumes "map_of f ''numero_processo'' = Some n" and "n \<in> set (numeros s)"
  shows "preparar_processo ev s f = Inr (Ja_existe n)"
proof -
  from assms(2) have "find (\<lambda>p. numero_processo p = n) (processos s) \<noteq> None"
    by (simp add: find_numero_None)
  then obtain q where "find (\<lambda>p. numero_processo p = n) (processos s) = Some q"
    by blast
  with assms(1) show ?thesis
    by (simp add: preparar_processo_def form_getitem_def)
qed

lemma preparar_novo:
  assumes "map_of f ''numero_processo'' = Some n" and "n \<notin> set (numeros s)"
    and "formulario_valido ev f"
  shows "\<exists>p. preparar_processo ev s f = Inr (Novo p) \<and> numero_processo p = n
    \<and> map_of f ''tipo'' = Some (tipo p)
    \<and> status p # tl (workflows_get (tipo p) [''Autuado'']) = workflows_get (tipo p) [''Autuado'']"
proof -
  from assms(2) have a: "find (\<lambda>p. numero_processo p = n) (processos s) = None"
    by (simp add: find_numero_None)
  from assms(3) obtain d dia t r where b: "map_of f ''data_autuacao'' = Some d"
    "strptime ev d = Some dia" "map_of f ''tipo'' = Some t" "map_of f ''resumo_fatos'' = Some r"
    by (auto simp: formulario_valido_def split: option.splits)
  obtain e es where c: "workflows_get t [''Autuado''] = e # es"
    using workflows_get_nao_vazio [of t] by (cases "workflows_get t [''Autuado'']") auto
  show ?thesis
    by (simp add: preparar_processo_def form_getitem_def assms(1) a b c)
qed

lemma commit_existente:
  assumes "numero_processo p \<in> set (numeros s)"
  shows "commit_processo ev s p = Inl IntegrityError"
proof -
  from assms have "find (\<lambda>q. numero_processo q = numero_processo p) (processos s) \<noteq> None"
    by (simp add: find_numero_None)
  then show ?thesis
    by (auto simp: commit_processo_def)
qed

lemma commit_novo:
  assumes "numero_processo p \<notin> set (numeros s)"
  shows "commit_processo ev s p = Inr (s\<lparr>
      processos := processos s @
        [p\<lparr>p_id := next_id (map p_id (processos s)), data_atualizacao := utcnow ev\<rparr>],
      andamentos := andamentos s @
        [\<lparr>a_id = next_id (map a_id (andamentos s)), etapa = status p,
          descricao = Some ''Processo instaurado.'', data = utcnow ev,
          processo_id = next_id (map p_id (processos s))\<rparr>]\<rparr>)"
proof -
  from assms have "find (\<lambda>q. numero_processo q = numero_processo p) (processos s) = None"
    by (simp add: find_numero_None)
  then show ?thesis
    by (simp add: commit_processo_def Let_def)
qed

lemma next_id_maior: "i \<in> set ids \<Longrightarrow> i < next_id ids"
proof -
  have "\<And>m. i \<in> set ids \<Longrightarrow> i \<le> fold max ids m \<and> m \<le> fold max ids m"
  proof (induction ids)
    case Nil
    then show ?case by simp
  next
    case (Cons a ids)
    have m: "\<And>k. k \<le> fold max ids k"
      by (induction ids) (auto intro: order_trans [OF max.cobounded2])
    show ?case
    proof (cases "i = a")
      case True
      have "max a m \<le> fold max ids (max a m)" by (rule m)
      with True show ?thesis by simp
    next
      case False
      with Cons.prems have "i \<in> set ids" by simp
      then have "i \<le> fold max ids (max a m) \<and> max a m \<le> fold max ids (max a m)"
        by (rule Cons.IH)
      then show ?thesis by simp
    qed
  qed
  then show "i \<in> set ids \<Longrightarrow> i < next_id ids"
    by (auto simp: next_id_def less_Suc_eq_le)
qed

lemma numeros_flashes [simp]: "numeros (s\<lparr>flashes := x\<rparr>) = numeros s"
  by (simp add: numeros_def)

lemma quantos_flashes [simp]: "quantos (s\<lparr>flashes := x\<rparr>) n = quantos s n"
  by (simp add: quantos_def)

lemma pedido_ok_flashes [simp]: "pedido_ok n (s\<lparr>flashes := x\<rparr>) p = pedido_ok n s p"
  by (cases p) simp_all

lemma commit_quantos:
  assumes "commit_processo ev s p = Inr s'"
  shows "numero_processo p \<notin> set (numeros s)"
    and "quantos s' m = quantos s m + (if numero_processo p = m then 1 else 0)"
    and "set (numeros s') = insert (numero_processo p) (set (numeros s))"
proof -
  show a: "numero_processo p \<notin> set (numeros s)"
    using assms commit_existente by fastforce
  from assms commit_novo [OF a, of ev] have s': "s' = s\<lparr>
      processos := processos s @
        [p\<lparr>p_id := next_id (map p_id (processos s)), data_atualizacao := utcnow ev\<rparr>],
      andamentos := andamentos s @
        [\<lparr>a_id = next_id (map a_id (andamentos s)), etapa = status p,
          descricao = Some ''Processo instaurado.'', data = utcnow ev,
          processo_id = next_id (map p_id (processos s))\<rparr>]\<rparr>"
    by simp
  show "quantos s' m = quantos s m + (if numero_processo p = m then 1 else 0)"
    by (simp add: s' quantos_def)
  show "set (numeros s') = insert (numero_processo p) (set (numeros s))"
    by (simp add: s' numeros_def)
qed

lemma pedido_ok_mono:
  assumes "pedido_ok n s p" and "set (numeros s) \<subseteq> set (numeros s')"
  shows "pedido_ok n s' p"
  using assms by (cases p) auto


lemma passo_inicial:
  assumes inv: "quantos s n = criado pa + criado pb" "quantos s n \<le> 1"
      "pedido_ok n s pa" "pedido_ok n s pb"
    and passo: "passo_pedido s pa = (s', pa')" and Inicial: "pa = Inicial ev f"
  shows "quantos s' n = criado pa' + criado pb \<and> quantos s' n \<le> 1
    \<and> pedido_ok n s' pa' \<and> pedido_ok n s' pb"
proof -
  from Inicial inv(3) have f: "map_of f ''numero_processo'' = Some n" "formulario_valido ev f"
    by simp_all
  show ?thesis
  proof (cases "n \<in> set (numeros s)")
    case True
    from preparar_existente [OF f(1) True, of ev] passo Inicial
    have "s' = s\<lparr>flashes := flashes s @ [Erro_numero_existe n]\<rparr>" "pa' = Terminado Duplicado"
      by simp_all
    with inv Inicial True show ?thesis by simp
  next
    case False
    from preparar_novo [OF f(1) False f(2)] obtain p where
      "preparar_processo ev s f = Inr (Novo p)" "numero_processo p = n" by blast
    with passo Inicial have "s' = s" "pa' = Verificado ev p" by simp_all
    with inv Inicial \<open>numero_processo p = n\<close> show ?thesis by simp
  qed
qed

lemma passo_verificado:
  assumes inv: "quantos s n = criado pa + criado pb" "quantos s n \<le> 1"
      "pedido_ok n s pa" "pedido_ok n s pb"
    and passo: "passo_pedido s pa = (s', pa')" and Verificado: "pa = Verificado ev p"
  shows "quantos s' n = criado pa' + criado pb \<and> quantos s' n \<le> 1
    \<and> pedido_ok n s' pa' \<and> pedido_ok n s' pb"
proof -
  from Verificado inv(3) have n: "numero_processo p = n" by simp
  show ?thesis
  proof (cases "commit_processo ev s p")
    case (Inl e)
    have m: "n \<in> set (numeros s)"
    proof (rule ccontr)
      assume "n \<notin> set (numeros s)"
      then have "numero_processo p \<notin> set (numeros s)" using n by simp
      from commit_novo [OF this, of ev] Inl show False by simp
    qed
    then have "numero_processo p \<in> set (numeros s)" using n by simp
    from commit_existente [OF this, of ev] Inl have "e = IntegrityError" by simp
    with passo Verificado Inl have "s' = s" "pa' = Terminado (Erro IntegrityError)" by simp_all
    with inv m Verificado show ?thesis by simp
  next
    case (Inr t)
    note q = commit_quantos [OF Inr]
    from passo Verificado Inr have r: "s' = t\<lparr>flashes := flashes t @ [Processo_adicionado]\<rparr>"
      "pa' = Terminado Criado" by simp_all
    from q(1) n have z: "quantos s n = 0" by (simp add: quantos_zero)
    with inv(1) have b0: "criado pb = 0" by simp
    from q(2) [of n] n z have t1: "quantos t n = 1" by simp
    from q(3) have "set (numeros s) \<subseteq> set (numeros t)" by auto
    with inv(4) have ok: "pedido_ok n t pb" by (rule pedido_ok_mono)
    show ?thesis unfolding r by (simp add: b0 t1 ok Verificado)
  qed
qed

lemma passo_pedido_inv:
  assumes inv: "quantos s n = criado pa + criado pb" "quantos s n \<le> 1"
      "pedido_ok n s pa" "pedido_ok n s pb"
    and passo: "passo_pedido s pa = (s', pa')"
  shows "quantos s' n = criado pa' + criado pb \<and> quantos s' n \<le> 1
    \<and> pedido_ok n s' pa' \<and> pedido_ok n s' pb"
proof (cases pa)
  case (Inicial ev f)
  with inv passo show ?thesis by (rule passo_inicial)
next
  case (Verificado ev p)
  with inv passo show ?thesis by (rule passo_verificado)
next
  case (Terminado d)
  with passo have "s' = s" "pa' = pa" by simp_all
  with inv show ?thesis by simp
qed

lemma executar_inv:
  assumes "inv_numero n c"
  shows "inv_numero n (executar sch c)"
  using assms
proof (induction sch arbitrary: c)
  case Nil
  then show ?case by simp
next
  case (Cons b sch)
  obtain s pa pb where c: "c = (s, pa, pb)" by (cases c) auto
  from Cons.prems c have i: "quantos s n = criado pa + criado pb" "quantos s n \<le> 1"
      "pedido_ok n s pa" "pedido_ok n s pb"
    by (simp_all add: inv_numero_def)
  show ?case
  proof (cases b)
    case True
    obtain s' pa' where p: "passo_pedido s pa = (s', pa')" by (cases "passo_pedido s pa") auto
    from passo_pedido_inv [OF i p] have "inv_numero n (s', pa', pb)"
      by (simp add: inv_numero_def)
    then have "inv_numero n (executar sch (s', pa', pb))" by (rule Cons.IH)
    with True c p show ?thesis by simp
  next
    case False
    obtain s' pb' where p: "passo_pedido s pb = (s', pb')" by (cases "passo_pedido s pb") auto
    from i have "quantos s n = criado pb + criado pa" by simp
    from passo_pedido_inv [OF this i(2) i(4) i(3) p] have "inv_numero n (s', pa, pb')"
      by (simp add: inv_numero_def)
    then have "inv_numero n (executar sch (s', pa, pb'))" by (rule Cons.IH)
    with False c p show ?thesis by simp
  qed
qed



lemma criado_Terminado: "criado (Terminado d) = (if d = Criado then 1 else 0)"
  by (cases d) simp_all

lemma um_vencedor:
  assumes "inv_numero n (s, Terminado da, Terminado db)"
  shows "quantos s n = 1 \<and>
    ((da = Criado \<and> (db = Duplicado \<or> db = Erro IntegrityError)) \<or>
     (db = Criado \<and> (da = Duplicado \<or> da = Erro IntegrityError)))"
proof -
  from assms have q: "quantos s n = criado (Terminado da) + criado (Terminado db)"
    and le: "quantos s n \<le> 1"
    and a: "da = Criado \<or> ((da = Duplicado \<or> da = Erro IntegrityError) \<and> n \<in> set (numeros s))"
    and b: "db = Criado \<or> ((db = Duplicado \<or> db = Erro IntegrityError) \<and> n \<in> set (numeros s))"
    by (simp_all add: inv_numero_def)
  show ?thesis
  proof (cases "da = Criado")
    case True
    note da = True
    show ?thesis
    proof (cases "db = Criado")
      case True
      with da q have "quantos s n = 2" by simp
      with le show ?thesis by simp
    next
      case False
      with da q have "quantos s n = 1" by (simp add: criado_Terminado)
      moreover from False b have "db = Duplicado \<or> db = Erro IntegrityError" by blast
      ultimately show ?thesis using da by blast
    qed
  next
    case False
    note da = False
    show ?thesis
    proof (cases "db = Criado")
      case True
      with da q have "quantos s n = 1" by (simp add: criado_Terminado)
      moreover from da a have "da = Duplicado \<or> da = Erro IntegrityError" by blast
      ultimately show ?thesis using True by blast
    next
      case False
      with da q have "quantos s n = 0" by (simp add: criado_Terminado)
      then have "n \<notin> set (numeros s)" by (simp add: quantos_zero)
      with da a show ?thesis by blast
    qed
  qed
qed

lemma passo_pedido_restantes:
  "passos_restantes (snd (passo_pedido s p)) \<le> passos_restantes p - 1"
  by (cases p) (auto split: sum.splits verificacao.splits)

lemma executar_restantes:
  assumes "executar sch (s, pa, pb) = (s', pa', pb')"
  shows "passos_restantes pa' \<le> passos_restantes pa - length (filter (\<lambda>b. b) sch)
    \<and> passos_restantes pb' \<le> passos_restantes pb - length (filter (\<lambda>b. \<not> b) sch)"
  using assms
proof (induction sch arbitrary: s pa pb)
  case Nil
  then show ?case by simp
next
  case (Cons b sch)
  show ?case
  proof (cases b)
    case True
    obtain s1 p1 where p: "passo_pedido s pa = (s1, p1)" by (cases "passo_pedido s pa") auto
    with Cons.prems True have "executar sch (s1, p1, pb) = (s', pa', pb')" by simp
    then have "passos_restantes pa' \<le> passos_restantes p1 - length (filter (\<lambda>b. b) sch)
      \<and> passos_restantes pb' \<le> passos_restantes pb - length (filter (\<lambda>b. \<not> b) sch)"
      by (rule Cons.IH)
    moreover from passo_pedido_restantes [of s pa] p
    have "passos_restantes p1 \<le> passos_restantes pa - 1" by simp
    ultimately show ?thesis using True by auto
  next
    case False
    obtain s1 p1 where p: "passo_pedido s pb = (s1, p1)" by (cases "passo_pedido s pb") auto
    with Cons.prems False have "executar sch (s1, pa, p1) = (s', pa', pb')" by simp
    then have "passos_restantes pa' \<le> passos_restantes pa - length (filter (\<lambda>b. b) sch)
      \<and> passos_restantes pb' \<le> passos_restantes p1 - length (filter (\<lambda>b. \<not> b) sch)"
      by (rule Cons.IH)
    moreover from passo_pedido_restantes [of s pb] p
    have "passos_restantes p1 \<le> passos_restantes pb - 1" by simp
    ultimately show ?thesis using False by auto
  qed
qed

lemma restantes_zero: "passos_restantes p = 0 \<Longrightarrow> \<exists>d. p = Terminado d"
  by (cases p) simp_all

lemma executar_termina:
  assumes "2 \<le> length (filter (\<lambda>b. b) sch)" and "2 \<le> length (filter (\<lambda>b. \<not> b) sch)"
  shows "\<exists>s' da db. executar sch (s, Inicial ev f, Inicial ev2 g) = (s', Terminado da, Terminado db)"
proof -
  obtain s' pa' pb' where e: "executar sch (s, Inicial ev f, Inicial ev2 g) = (s', pa', pb')"
    by (cases "executar sch (s, Inicial ev f, Inicial ev2 g)") auto
  from executar_restantes [OF e] assms
  have "passos_restantes pa' = 0" "passos_restantes pb' = 0" by simp_all
  then obtain da db where "pa' = Terminado da" "pb' = Terminado db"
    using restantes_zero by blast
  with e show ?thesis by blast
qed

lemma adicionar_existente:
  assumes "map_of f ''numero_processo'' = Some n" and "n \<in> set (numeros s)"
  shows "adicionar_processo ev s POST f =
    Inr (s\<lparr>flashes := flashes s @ [Erro_numero_existe n]\<rparr>, Redirect_adicionar_processo)"
  by (simp add: adicionar_processo_def preparar_existente [OF assms])

lemma adicionar_novo:
  assumes "map_of f ''numero_processo'' = Some n" and "n \<notin> set (numeros s)"
    and "formulario_valido ev f"
  shows "\<exists>p. numero_processo p = n
    \<and> map_of f ''tipo'' = Some (tipo p)
    \<and> status p # tl (workflows_get (tipo p) [''Autuado'']) = workflows_get (tipo p) [''Autuado'']
    \<and> adicionar_processo ev s POST f = Inr (s\<lparr>
      processos := processos s @
        [p\<lparr>p_id := next_id (map p_id (processos s)), data_atualizacao := utcnow ev\<rparr>],
      andamentos := andamentos s @
        [\<lparr>a_id = next_id (map a_id (andamentos s)), etapa = status p,
          descricao = Some ''Processo instaurado.'', data = utcnow ev,
          processo_id = next_id (map p_id (processos s))\<rparr>],
      flashes := flashes s @ [Processo_adicionado]\<rparr>, Redirect_index)"
proof -
  from preparar_novo [OF assms] obtain p where p: "preparar_processo ev s f = Inr (Novo p)"
    "numero_processo p = n" "map_of f ''tipo'' = Some (tipo p)"
    "status p # tl (workflows_get (tipo p) [''Autuado'']) = workflows_get (tipo p) [''Autuado'']"
    by blast
  from p(2) assms(2) have "numero_processo p \<notin> set (numeros s)" by simp
  from commit_novo [OF this, of ev] p(1)
  have "adicionar_processo ev s POST f = Inr (s\<lparr>
      processos := processos s @
        [p\<lparr>p_id := next_id (map p_id (processos s)), data_atualizacao := utcnow ev\<rparr>],
      andamentos := andamentos s @
        [\<lparr>a_id = next_id (map a_id (andamentos s)), etapa = status p,
          descricao = Some ''Processo instaurado.'', data = utcnow ev,
          processo_id = next_id (map p_id (processos s))\<rparr>],
      flashes := flashes s @ [Processo_adicionado]\<rparr>, Redirect_index)"
    by (simp add: adicionar_processo_def)
  with p(2,3,4) show ?thesis by blast
qed

lemma adicionar_processo_passos:
  "resposta (passo_pedido (fst (passo_pedido s (Inicial ev f))) (snd (passo_pedido s (Inicial ev f))))
     = Some (adicionar_processo ev s POST f)"
  by (simp add: adicionar_processo_def split: sum.splits verificacao.splits)

lemma exemplo_numeros:
  "numeros estado_exemplo = [''001/2024'', ''002/2024'']" "numeros estado_vazio = []"
  by (simp_all add: numeros_def estado_exemplo_def estado_vazio_def caso_exemplo_def outro_caso_def)

lemma exemplo_forms:
  "map_of form_repetido ''numero_processo'' = Some ''001/2024''"
  "map_of form_novo ''numero_processo'' = Some ''003/2024''"
  "map_of form_inquerito ''numero_processo'' = Some ''004/2024''"
  "map_of form_inquerito ''tipo'' = Some ''Inquerito''"
  "map_of form_novo ''tipo'' = Some ''Tomada de Conta Especial''"
  "formulario_valido env_exemplo form_novo"
  "formulario_valido env_exemplo form_inquerito"
  by (simp_all add: form_repetido_def form_novo_def form_inquerito_def formulario_valido_def
      env_exemplo_def)

text \<open>
  C1. A creation under a number that a case has flashes the error and inserts nothing.
  A creation under a number that no case has, from a form with its required fields and a
  date that parses, succeeds and leaves exactly one case with the number, the count of
  every other number as it was; a creation under that number after it fails as the first
  line says. Of two such creations under one number that run at the same time, in
  whatever order their reads and commits fall, exactly one creates the case and the other
  ends on the number being taken, by the check of line 190 or by the unique column at the
  commit; exactly one case has the number at the end. Every schedule that gives each
  request its two steps ends both.
\<close>

theorem adicionar_processo_numero_unico:
  assumes "map_of f ''numero_processo'' = Some n"
  shows "(n \<in> set (numeros s) \<longrightarrow>
      adicionar_processo ev s POST f =
        Inr (s\<lparr>flashes := flashes s @ [Erro_numero_existe n]\<rparr>, Redirect_adicionar_processo))
    \<and> (n \<notin> set (numeros s) \<and> formulario_valido ev f \<longrightarrow>
      (\<exists>s'. adicionar_processo ev s POST f = Inr (s', Redirect_index)
        \<and> quantos s' n = 1
        \<and> (\<forall>m. m \<noteq> n \<longrightarrow> quantos s' m = quantos s m)
        \<and> (\<forall>ev' f'. map_of f' ''numero_processo'' = Some n \<longrightarrow>
              adicionar_processo ev' s' POST f' =
                Inr (s'\<lparr>flashes := flashes s' @ [Erro_numero_existe n]\<rparr>,
                     Redirect_adicionar_processo))))
    \<and> (n \<notin> set (numeros s) \<and> formulario_valido ev f \<and>
        map_of g ''numero_processo'' = Some n \<and> formulario_valido ev2 g \<longrightarrow>
      (\<forall>sch s' da db.
          executar sch (s, Inicial ev f, Inicial ev2 g) = (s', Terminado da, Terminado db) \<longrightarrow>
          quantos s' n = 1 \<and>
          ((da = Criado \<and> (db = Duplicado \<or> db = Erro IntegrityError)) \<or>
           (db = Criado \<and> (da = Duplicado \<or> da = Erro IntegrityError))))
      \<and> (\<forall>sch. 2 \<le> length (filter (\<lambda>b. b) sch) \<and> 2 \<le> length (filter (\<lambda>b. \<not> b) sch) \<longrightarrow>
          (\<exists>s' da db.
            executar sch (s, Inicial ev f, Inicial ev2 g) = (s', Terminado da, Terminado db))))"
proof (intro conjI impI)
  assume "n \<in> set (numeros s)"
  with assms show "adicionar_processo ev s POST f =
      Inr (s\<lparr>flashes := flashes s @ [Erro_numero_existe n]\<rparr>, Redirect_adicionar_processo)"
    by (rule adicionar_existente)
next
  assume h: "n \<notin> set (numeros s) \<and> formulario_valido ev f"
  from adicionar_novo [OF assms h [THEN conjunct1] h [THEN conjunct2]]
  obtain p where p: "numero_processo p = n"
    and a: "adicionar_processo ev s POST f = Inr (s\<lparr>
      processos := processos s @
        [p\<lparr>p_id := next_id (map p_id (processos s)), data_atualizacao := utcnow ev\<rparr>],
      andamentos := andamentos s @
        [\<lparr>a_id = next_id (map a_id (andamentos s)), etapa = status p,
          descricao = Some ''Processo instaurado.'', data = utcnow ev,
          processo_id = next_id (map p_id (processos s))\<rparr>],
      flashes := flashes s @ [Processo_adicionado]\<rparr>, Redirect_index)" (is "_ = Inr (?s', _)")
    by blast
  from h have z: "quantos s n = 0" by (simp add: quantos_zero)
  have q: "\<And>m. quantos ?s' m = quantos s m + (if n = m then 1 else 0)"
    by (simp add: quantos_def p)
  from q [of n] z have one: "quantos ?s' n = 1" by simp
  from q have others: "\<forall>m. m \<noteq> n \<longrightarrow> quantos ?s' m = quantos s m" by simp
  from one have "n \<in> set (numeros ?s')" using quantos_zero [of ?s' n] by simp
  then have again: "\<forall>ev' f'. map_of f' ''numero_processo'' = Some n \<longrightarrow>
      adicionar_processo ev' ?s' POST f' =
        Inr (?s'\<lparr>flashes := flashes ?s' @ [Erro_numero_existe n]\<rparr>, Redirect_adicionar_processo)"
    using adicionar_existente by blast
  from a one others again
  show "\<exists>s'. adicionar_processo ev s POST f = Inr (s', Redirect_index)
        \<and> quantos s' n = 1
        \<and> (\<forall>m. m \<noteq> n \<longrightarrow> quantos s' m = quantos s m)
        \<and> (\<forall>ev' f'. map_of f' ''numero_processo'' = Some n \<longrightarrow>
              adicionar_processo ev' s' POST f' =
                Inr (s'\<lparr>flashes := flashes s' @ [Erro_numero_existe n]\<rparr>,
                     Redirect_adicionar_processo))"
    by blast
next
  assume h: "n \<notin> set (numeros s) \<and> formulario_valido ev f \<and>
        map_of g ''numero_processo'' = Some n \<and> formulario_valido ev2 g"
  then have "quantos s n = 0" by (simp add: quantos_zero)
  with h assms have i: "inv_numero n (s, Inicial ev f, Inicial ev2 g)"
    by (simp add: inv_numero_def)
  show "\<forall>sch s' da db.
          executar sch (s, Inicial ev f, Inicial ev2 g) = (s', Terminado da, Terminado db) \<longrightarrow>
          quantos s' n = 1 \<and>
          ((da = Criado \<and> (db = Duplicado \<or> db = Erro IntegrityError)) \<or>
           (db = Criado \<and> (da = Duplicado \<or> da = Erro IntegrityError)))"
  proof (intro allI impI)
    fix sch s' da db
    assume e: "executar sch (s, Inicial ev f, Inicial ev2 g) = (s', Terminado da, Terminado db)"
    from executar_inv [OF i, of sch] e have "inv_numero n (s', Terminado da, Terminado db)"
      by simp
    then show "quantos s' n = 1 \<and>
          ((da = Criado \<and> (db = Duplicado \<or> db = Erro IntegrityError)) \<or>
           (db = Criado \<and> (da = Duplicado \<or> da = Erro IntegrityError)))"
      by (rule um_vencedor)
  qed
next
  show "\<forall>sch. 2 \<le> length (filter (\<lambda>b. b) sch) \<and> 2 \<le> length (filter (\<lambda>b. \<not> b) sch) \<longrightarrow>
          (\<exists>s' da db.
            executar sch (s, Inicial ev f, Inicial ev2 g) = (s', Terminado da, Terminado db))"
    using executar_termina by blast
qed

theorem adicionar_processo_numero_unico_witness:
  "map_of form_repetido ''numero_processo'' = Some ''001/2024''
   \<and> ''001/2024'' \<in> set (numeros estado_exemplo)
   \<and> adicionar_processo env_exemplo estado_exemplo POST form_repetido =
       Inr (estado_exemplo\<lparr>flashes := [Erro_numero_existe ''001/2024'']\<rparr>,
            Redirect_adicionar_processo)
   \<and> map_of form_novo ''numero_processo'' = Some ''003/2024''
   \<and> ''003/2024'' \<notin> set (numeros estado_exemplo)
   \<and> formulario_valido env_exemplo form_novo
   \<and> (\<exists>s'. adicionar_processo env_exemplo estado_exemplo POST form_novo = Inr (s', Redirect_index)
        \<and> quantos s' ''003/2024'' = 1)
   \<and> (\<exists>s' da db.
        executar [True, False, True, False]
          (estado_exemplo, Inicial env_exemplo form_novo, Inicial env_exemplo form_novo) =
          (s', Terminado da, Terminado db)
        \<and> quantos s' ''003/2024'' = 1
        \<and> ((da = Criado \<and> (db = Duplicado \<or> db = Erro IntegrityError)) \<or>
            (db = Criado \<and> (da = Duplicado \<or> da = Erro IntegrityError))))"
proof -
  have a: "''001/2024'' \<in> set (numeros estado_exemplo)"
    and b: "''003/2024'' \<notin> set (numeros estado_exemplo)"
    by (simp_all add: exemplo_numeros)
  have f: "flashes estado_exemplo = []" by (simp add: estado_exemplo_def)
  note t1 = adicionar_processo_numero_unico [OF exemplo_forms(1), where s = estado_exemplo
      and ev = env_exemplo, THEN conjunct1, THEN mp, OF a]
  note t2 = adicionar_processo_numero_unico [OF exemplo_forms(2), where s = estado_exemplo
      and ev = env_exemplo, THEN conjunct2, THEN conjunct1, THEN mp,
      OF conjI [OF b exemplo_forms(6)]]
  note t3 = adicionar_processo_numero_unico [OF exemplo_forms(2), where s = estado_exemplo
      and ev = env_exemplo and g = form_novo and ?ev2.0 = env_exemplo,
      THEN conjunct2, THEN conjunct2, THEN mp,
      OF conjI [OF b conjI [OF exemplo_forms(6) conjI [OF exemplo_forms(2) exemplo_forms(6)]]]]
  have l: "2 \<le> length (filter (\<lambda>b. b) [True, False, True, False])
      \<and> 2 \<le> length (filter (\<lambda>b. \<not> b) [True, False, True, False])"
    by simp
  from t3 [THEN conjunct2, THEN spec, THEN mp, OF l]
  obtain s' da db where e: "executar [True, False, True, False]
          (estado_exemplo, Inicial env_exemplo form_novo, Inicial env_exemplo form_novo) =
          (s', Terminado da, Terminado db)"
    by blast
  from t3 [THEN conjunct1, THEN spec, THEN spec, THEN spec, THEN spec, THEN mp, OF e] e
  have c: "\<exists>s' da db.
        executar [True, False, True, False]
          (estado_exemplo, Inicial env_exemplo form_novo, Inicial env_exemplo form_novo) =
          (s', Terminado da, Terminado db)
        \<and> quantos s' ''003/2024'' = 1
        \<and> ((da = Criado \<and> (db = Duplicado \<or> db = Erro IntegrityError)) \<or>
            (db = Criado \<and> (da = Duplicado \<or> da = Erro IntegrityError)))"
    by blast
  from t2 have d: "\<exists>s'. adicionar_processo env_exemplo estado_exemplo POST form_novo =
      Inr (s', Redirect_index) \<and> quantos s' ''003/2024'' = 1"
    by blast
  from t1 f have t1': "adicionar_processo env_exemplo estado_exemplo POST form_repetido =
       Inr (estado_exemplo\<lparr>flashes := [Erro_numero_existe ''001/2024'']\<rparr>,
            Redirect_adicionar_processo)"
    by simp
  from exemplo_forms(1) a t1' exemplo_forms(2) b exemplo_forms(6) d c show ?thesis
    by (intro conjI)
qed

lemma executar_exemplo:
  "\<exists>s'. executar [True, False, True, False]
      (estado_exemplo, Inicial env_exemplo form_novo, Inicial env_exemplo form_novo) =
      (s', Terminado Criado, Terminado (Erro IntegrityError))"
proof -
  let ?n = "''003/2024''"
  have b: "?n \<notin> set (numeros estado_exemplo)" by (simp add: exemplo_numeros)
  from preparar_novo [OF exemplo_forms(2) b exemplo_forms(6)]
  obtain p where p: "preparar_processo env_exemplo estado_exemplo form_novo = Inr (Novo p)"
    "numero_processo p = ?n" by blast
  from p(2) b have "numero_processo p \<notin> set (numeros estado_exemplo)" by simp
  from commit_novo [OF this, of env_exemplo]
  obtain t where t: "commit_processo env_exemplo estado_exemplo p = Inr t" by blast
  from commit_quantos(3) [OF t] p(2)
  have "numero_processo p \<in> set (numeros (t\<lparr>flashes := flashes t @ [Processo_adicionado]\<rparr>))"
    by simp
  then have "commit_processo env_exemplo (t\<lparr>flashes := flashes t @ [Processo_adicionado]\<rparr>) p
      = Inl IntegrityError"
    by (rule commit_existente)
  with p(1) t show ?thesis by simp
qed

text \<open>
  C6, as the code has it. The creation looks the case type up with a default: for a type
  that is not registered it takes the one-stage list of Autuado and succeeds, as it does
  for a registered type, whose list is not empty and gives its first stage. In both the
  new case has the form's type and that stage, and exactly one entry is added, of that
  stage and of the new case, whose key no case had; no document is added.
\<close>

theorem adicionar_processo_etapa_inicial:
  assumes "map_of f ''numero_processo'' = Some n" and "n \<notin> set (numeros s)"
    and "formulario_valido ev f" and "map_of f ''tipo'' = Some t"
  shows "\<exists>s' p a. adicionar_processo ev s POST f = Inr (s', Redirect_index)
    \<and> processos s' = processos s @ [p]
    \<and> andamentos s' = andamentos s @ [a]
    \<and> documentos s' = documentos s
    \<and> numero_processo p = n \<and> tipo p = t
    \<and> (map_of WORKFLOWS t = None \<longrightarrow> status p = ''Autuado'')
    \<and> (\<forall>etapas. map_of WORKFLOWS t = Some etapas \<longrightarrow> etapas \<noteq> [] \<and> status p = hd etapas)
    \<and> p_id p \<notin> set (map p_id (processos s))
    \<and> etapa a = status p \<and> processo_id a = p_id p
    \<and> descricao a = Some ''Processo instaurado.''"
proof -
  from adicionar_novo [OF assms(1,2,3)]
  obtain p0 where p0: "numero_processo p0 = n" "map_of f ''tipo'' = Some (tipo p0)"
    "status p0 # tl (workflows_get (tipo p0) [''Autuado'']) = workflows_get (tipo p0) [''Autuado'']"
    and a: "adicionar_processo ev s POST f = Inr (s\<lparr>
      processos := processos s @
        [p0\<lparr>p_id := next_id (map p_id (processos s)), data_atualizacao := utcnow ev\<rparr>],
      andamentos := andamentos s @
        [\<lparr>a_id = next_id (map a_id (andamentos s)), etapa = status p0,
          descricao = Some ''Processo instaurado.'', data = utcnow ev,
          processo_id = next_id (map p_id (processos s))\<rparr>],
      flashes := flashes s @ [Processo_adicionado]\<rparr>, Redirect_index)"
      (is "_ = Inr (?s', _)")
    by blast
  let ?p = "p0\<lparr>p_id := next_id (map p_id (processos s)), data_atualizacao := utcnow ev\<rparr>"
  let ?a = "\<lparr>a_id = next_id (map a_id (andamentos s)), etapa = status p0,
          descricao = Some ''Processo instaurado.'', data = utcnow ev,
          processo_id = next_id (map p_id (processos s))\<rparr>"
  from p0(2) assms(4) have t: "tipo p0 = t" by simp
  have w: "status p0 # tl (workflows_get t [''Autuado'']) = workflows_get t [''Autuado'']"
    using p0(3) t by simp
  have c1: "processos ?s' = processos s @ [?p]" by simp
  have c2: "andamentos ?s' = andamentos s @ [?a]" by simp
  have c3: "documentos ?s' = documentos s" by simp
  have c4: "numero_processo ?p = n \<and> tipo ?p = t" using p0(1) t by simp
  have c5: "map_of WORKFLOWS t = None \<longrightarrow> status ?p = ''Autuado''"
    using w by (auto simp: workflows_get_def)
  have c6: "\<forall>etapas. map_of WORKFLOWS t = Some etapas \<longrightarrow> etapas \<noteq> [] \<and> status ?p = hd etapas"
  proof (intro allI impI)
    fix etapas assume "map_of WORKFLOWS t = Some etapas"
    then have "workflows_get t [''Autuado''] = etapas" by (simp add: workflows_get_def)
    with w have "status p0 # tl etapas = etapas" by simp
    then have "etapas \<noteq> [] \<and> hd etapas = status p0" by (cases etapas) auto
    then show "etapas \<noteq> [] \<and> status ?p = hd etapas" by simp
  qed
  have c7: "p_id ?p \<notin> set (map p_id (processos s))"
    using next_id_maior [of "next_id (map p_id (processos s))" "map p_id (processos s)"] by auto
  have c8: "etapa ?a = status ?p \<and> processo_id ?a = p_id ?p
      \<and> descricao ?a = Some ''Processo instaurado.''"
    by simp
  show ?thesis
    by (rule exI [of _ ?s'], rule exI [of _ ?p], rule exI [of _ ?a])
       (use a c1 c2 c3 c4 c5 c6 c7 c8 in blast)
qed

theorem adicionar_processo_etapa_inicial_witness:
  "map_of form_novo ''numero_processo'' = Some ''003/2024''
   \<and> ''003/2024'' \<notin> set (numeros estado_exemplo)
   \<and> formulario_valido env_exemplo form_novo
   \<and> map_of form_novo ''tipo'' = Some ''Tomada de Conta Especial''
   \<and> map_of WORKFLOWS ''Tomada de Conta Especial'' \<noteq> None
   \<and> (\<exists>s' p a. adicionar_processo env_exemplo estado_exemplo POST form_novo =
          Inr (s', Redirect_index)
        \<and> processos s' = processos estado_exemplo @ [p]
        \<and> andamentos s' = andamentos estado_exemplo @ [a]
        \<and> status p = ''Instaura'' @ [CHR 0xC3, CHR 0xA7, CHR 0xC3, CHR 0xA3] @ ''o''
        \<and> etapa a = status p \<and> processo_id a = p_id p)
   \<and> map_of form_inquerito ''tipo'' = Some ''Inquerito''
   \<and> map_of WORKFLOWS ''Inquerito'' = None
   \<and> (\<exists>s' p a. adicionar_processo env_exemplo estado_vazio POST form_inquerito =
          Inr (s', Redirect_index)
        \<and> processos s' = [p] \<and> andamentos s' = [a]
        \<and> status p = ''Autuado'' \<and> etapa a = ''Autuado'' \<and> processo_id a = p_id p)"
proof -
  have b: "''003/2024'' \<notin> set (numeros estado_exemplo)"
    by (simp add: exemplo_numeros)
  have w: "map_of WORKFLOWS ''Tomada de Conta Especial'' =
      Some [''Instaura'' @ [CHR 0xC3, CHR 0xA7, CHR 0xC3, CHR 0xA3] @ ''o'',
         ''Cita'' @ [CHR 0xC3, CHR 0xA7, CHR 0xC3, CHR 0xA3] @ ''o'', ''Defesa'',
         ''Relat'' @ [CHR 0xC3, CHR 0xB3] @ ''rio'', ''Julgamento'', ''Finalizado'']"
    by (simp add: WORKFLOWS_def)
  from adicionar_processo_etapa_inicial [OF exemplo_forms(2) b exemplo_forms(6) exemplo_forms(5)]
  obtain s' p a where r: "adicionar_processo env_exemplo estado_exemplo POST form_novo =
          Inr (s', Redirect_index)"
      "processos s' = processos estado_exemplo @ [p]"
      "andamentos s' = andamentos estado_exemplo @ [a]"
      "\<forall>etapas. map_of WORKFLOWS ''Tomada de Conta Especial'' = Some etapas \<longrightarrow>
          etapas \<noteq> [] \<and> status p = hd etapas"
      "etapa a = status p" "processo_id a = p_id p"
    by blast
  from r(4) w have "status p = ''Instaura'' @ [CHR 0xC3, CHR 0xA7, CHR 0xC3, CHR 0xA3] @ ''o''"
    by simp
  with r(1,2,3,5,6) have reg: "\<exists>s' p a. adicionar_processo env_exemplo estado_exemplo POST form_novo =
          Inr (s', Redirect_index)
        \<and> processos s' = processos estado_exemplo @ [p]
        \<and> andamentos s' = andamentos estado_exemplo @ [a]
        \<and> status p = ''Instaura'' @ [CHR 0xC3, CHR 0xA7, CHR 0xC3, CHR 0xA3] @ ''o''
        \<and> etapa a = status p \<and> processo_id a = p_id p"
    by blast
  from w have some: "map_of WORKFLOWS ''Tomada de Conta Especial'' \<noteq> None" by simp
  have none: "map_of WORKFLOWS ''Inquerito'' = None"
    by (simp add: WORKFLOWS_def)
  have v: "''004/2024'' \<notin> set (numeros estado_vazio)"
    by (simp add: exemplo_numeros)
  have e: "processos estado_vazio = []" "andamentos estado_vazio = []"
    by (simp_all add: estado_vazio_def)
  from adicionar_processo_etapa_inicial [OF exemplo_forms(3) v exemplo_forms(7) exemplo_forms(4)]
  obtain t q c where u: "adicionar_processo env_exemplo estado_vazio POST form_inquerito =
          Inr (t, Redirect_index)"
      "processos t = processos estado_vazio @ [q]"
      "andamentos t = andamentos estado_vazio @ [c]"
      "map_of WORKFLOWS ''Inquerito'' = None \<longrightarrow> status q = ''Autuado''"
      "etapa c = status q" "processo_id c = p_id q"
    by (elim exE conjE) (rule that; assumption)
  from u(4) none have sq: "status q = ''Autuado''" by simp
  from u(2,3) e have l: "processos t = [q]" "andamentos t = [c]" by simp_all
  from u(5) sq have ec: "etapa c = ''Autuado''" by simp
  have unreg: "\<exists>s' p a. adicionar_processo env_exemplo estado_vazio POST form_inquerito =
          Inr (s', Redirect_index)
        \<and> processos s' = [p] \<and> andamentos s' = [a]
        \<and> status p = ''Autuado'' \<and> etapa a = ''Autuado'' \<and> processo_id a = p_id p"
    by (rule exI [of _ t], rule exI [of _ q], rule exI [of _ c]) (intro conjI u(1) l sq ec u(6))
  from exemplo_forms(2) b exemplo_forms(6) exemplo_forms(5) some reg exemplo_forms(4) none unreg
  show ?thesis by (intro conjI)
qed

text \<open>
  C6 as the specification words it fails: the type Inquerito is not registered, and the
  creation of a case of that type succeeds, in the stage Autuado.
\<close>

theorem adicionar_processo_etapa_inicial_counterexample:
  "map_of WORKFLOWS ''Inquerito'' = None
   \<and> adicionar_processo env_exemplo estado_vazio POST form_inquerito =
     Inr (\<lparr>processos =
         [\<lparr>p_id = 1, numero_processo = ''004/2024'', portaria = None,
           membros_comissao = [], tipo = ''Inquerito'', servidor_a_apurar = False,
           servidor_investigado = None, servidor_cargo = None, servidor_matricula = None,
           resumo_fatos = ''Fatos'', status = ''Autuado'', data_autuacao = (data_D, 0),
           prazo_inicial_dias = None, prorrogacao_dias = Some 0,
           data_atualizacao = (data_D + 10, 0)\<rparr>],
       andamentos =
         [\<lparr>a_id = 1, etapa = ''Autuado'', descricao = Some ''Processo instaurado.'',
           data = (data_D + 10, 0), processo_id = 1\<rparr>],
       documentos = [], uploads = Map.empty, flashes = [Processo_adicionado]\<rparr>,
       Redirect_index)"
  by (simp add: WORKFLOWS_def adicionar_processo_def preparar_processo_def commit_processo_def
      form_getitem_def form_get_def form_get_int_def form_contains_def form_getlist_def
      processar_membros_comissao_def workflows_get_def next_id_def
      form_inquerito_def env_exemplo_def estado_vazio_def)

subsection \<open>The consolidated report\<close>

lemma paginas_de_simps:
  "ups (filename d) = None \<Longrightarrow> paginas_de ups d = []"
  "ups (filename d) = Some (Pdf pags) \<Longrightarrow> paginas_de ups d = pags"
  "ups (filename d) = Some Corrompido \<Longrightarrow> paginas_de ups d = []"
  by (simp_all add: paginas_de_def)

lemma anexar_documentos_eq:
  assumes "\<forall>d \<in> set docs. ups (filename d) \<noteq> Some Corrompido"
  shows "anexar_documentos ups docs merger = Some (merger @ concat (map (paginas_de ups) docs))"
  using assms
proof (induction docs arbitrary: merger)
  case Nil
  then show ?case by simp
next
  case (Cons d docs)
  then have ih: "\<And>m. anexar_documentos ups docs m = Some (m @ concat (map (paginas_de ups) docs))"
    by simp
  from Cons.prems have nc: "ups (filename d) \<noteq> Some Corrompido" by simp
  show ?case
  proof (cases "ups (filename d)")
    case None
    then show ?thesis by (simp add: ih paginas_de_simps)
  next
    case (Some b)
    with nc obtain pags where "b = Pdf pags" by (cases b) auto
    with Some show ?thesis by (simp add: ih paginas_de_simps)
  qed
qed

lemma anexar_andamentos_eq:
  assumes "\<forall>a \<in> set ands. \<forall>d \<in> set (documentos_de s a). uploads s (filename d) \<noteq> Some Corrompido"
  shows "anexar_andamentos s ands merger =
    Some (merger @ concat (map (paginas_de (uploads s)) (concat (map (documentos_de s) ands))))"
  using assms
proof (induction ands arbitrary: merger)
  case Nil
  then show ?case by simp
next
  case (Cons a ands)
  then have ih: "\<And>m. anexar_andamentos s ands m =
      Some (m @ concat (map (paginas_de (uploads s)) (concat (map (documentos_de s) ands))))"
    by simp
  from Cons.prems have "\<forall>d \<in> set (documentos_de s a). uploads s (filename d) \<noteq> Some Corrompido"
    by simp
  then have "anexar_documentos (uploads s) (documentos_de s a) merger =
      Some (merger @ concat (map (paginas_de (uploads s)) (documentos_de s a)))"
    by (rule anexar_documentos_eq)
  then show ?case by (simp add: ih)
qed

lemma anexar_documentos_corrompido:
  assumes "d \<in> set docs" and "ups (filename d) = Some Corrompido"
  shows "anexar_documentos ups docs merger = None"
  using assms
proof (induction docs arbitrary: merger)
  case Nil
  then show ?case by simp
next
  case (Cons x docs)
  show ?case
  proof (cases "x = d")
    case True
    with Cons.prems(2) show ?thesis by simp
  next
    case False
    with Cons.prems have "d \<in> set docs" by simp
    then have "\<And>m. anexar_documentos ups docs m = None" using Cons.IH Cons.prems(2) by blast
    then show ?thesis by (simp split: option.splits blob.splits)
  qed
qed

lemma numerar_conteudo: "map conteudo (numerar i pags) = pags"
  by (induction pags arbitrary: i) simp_all

lemma numerar_length: "length (numerar i pags) = length pags"
  by (induction pags arbitrary: i) simp_all

lemma numerar_rotulo:
  "map rotulo (numerar i pags) = map (\<lambda>k. ''Fl. '' @ fmt_03d k) [Suc i..<Suc i + length pags]"
proof (induction pags arbitrary: i)
  case Nil
  then show ?case by simp
next
  case (Cons p pags)
  have e: "Suc i + length (p # pags) = Suc (Suc i) + length pags" by simp
  have "[Suc i..<Suc (Suc i) + length pags] = Suc i # [Suc (Suc i)..<Suc (Suc i) + length pags]"
    by (rule upt_conv_Cons) simp
  then have u: "[Suc i..<Suc i + length (p # pags)] =
      Suc i # [Suc (Suc i)..<Suc (Suc i) + length pags]"
    by (simp only: e)
  show ?case unfolding u using Cons [of "Suc i"] by simp
qed

lemma numerar_alinhar: "\<forall>fo \<in> set (numerar i pags). alinhar fo = TEXT_ALIGN_RIGHT"
  by (induction pags arbitrary: i) simp_all

lemma valor_decimal_snoc:
  "valor_decimal (str @ [c]) = 10 * valor_decimal str + (of_char c - 48)"
  by (simp add: valor_decimal_def)

lemma valor_decimal_decimal: "valor_decimal (decimal n) = n"
proof (induction n rule: decimal.induct)
  case (1 n)
  show ?case
  proof (cases "n < 10")
    case True
    then have "decimal n = [char_of (48 + n)]" by (subst decimal.simps) simp
    moreover from True have "(48 + n) mod 256 = 48 + n" by simp
    ultimately show ?thesis by (simp add: valor_decimal_def)
  next
    case False
    then have d: "decimal n = decimal (n div 10) @ [char_of (48 + n mod 10)]"
      by (subst decimal.simps) simp
    have "(48 + n mod 10) mod 256 = 48 + n mod 10"
      by (rule mod_less) (simp add: less_le_trans [OF add_strict_left_mono [OF mod_less_divisor]])
    with False "1.IH" show ?thesis
      by (simp add: d valor_decimal_snoc)
  qed
qed

lemma valor_decimal_zeros: "valor_decimal (replicate k (CHR ''0'') @ str) = valor_decimal str"
proof -
  have "foldl (\<lambda>n c. 10 * n + (of_char c - 48)) 0 (replicate k (CHR ''0'')) = (0::nat)"
    by (induction k) simp_all
  then show ?thesis by (simp add: valor_decimal_def)
qed

lemma valor_fmt_03d: "valor_decimal (fmt_03d n) = n"
  by (simp add: fmt_03d_def valor_decimal_zeros valor_decimal_decimal)

lemma length_fmt_03d: "3 \<le> length (fmt_03d n)"
  by (simp add: fmt_03d_def)

lemma fmt_03d_exemplos:
  "fmt_03d 1 = ''001''" "fmt_03d 12 = ''012''" "fmt_03d 345 = ''345''" "fmt_03d 1000 = ''1000''"
  by code_simp+

lemma generate_pdf_task_eq:
  assumes "find (\<lambda>p. p_id p = pid) (processos s) = Some p"
    and "\<forall>d \<in> set (documentos_ordenados s pid). uploads s (filename d) \<noteq> Some Corrompido"
  shows "generate_pdf_task ev s pid =
    Relatorio (final_filename ev p)
      (numerar 0 (render_capa ev p @
        concat (map (paginas_de (uploads s)) (documentos_ordenados s pid))))"
proof -
  from assms(1) have id: "p_id p = pid" by (rule find_por_id [THEN conjunct1])
  from assms(2) have "\<forall>a \<in> set (sort_key data (andamentos_de s pid)).
      \<forall>d \<in> set (documentos_de s a). uploads s (filename d) \<noteq> Some Corrompido"
    unfolding documentos_ordenados_def by auto
  then have "anexar_andamentos s (sort_key data (andamentos_de s pid)) (render_capa ev p) =
      Some (render_capa ev p @ concat (map (paginas_de (uploads s))
        (concat (map (documentos_de s) (sort_key data (andamentos_de s pid))))))"
    by (rule anexar_andamentos_eq)
  then show ?thesis
    by (simp add: generate_pdf_task_def assms(1) id documentos_ordenados_def)
qed

text \<open>
  A file that is present and cannot be read ends the task with no report: the bound of
  the properties below.
\<close>

lemma anexar_andamentos_corrompido:
  assumes "a \<in> set ands" and "d \<in> set (documentos_de s a)"
    and "uploads s (filename d) = Some Corrompido"
  shows "anexar_andamentos s ands merger = None"
  using assms(1)
proof (induction ands arbitrary: merger)
  case Nil
  then show ?case by simp
next
  case (Cons x ands)
  show ?case
  proof (cases "x = a")
    case True
    from assms(2,3) have "anexar_documentos (uploads s) (documentos_de s a) merger = None"
      by (rule anexar_documentos_corrompido)
    with True show ?thesis by simp
  next
    case False
    with Cons.prems have "a \<in> set ands" by simp
    then have "\<And>m. anexar_andamentos s ands m = None" by (rule Cons.IH)
    then show ?thesis by (simp split: option.splits)
  qed
qed

lemma generate_pdf_task_falha:
  assumes "find (\<lambda>p. p_id p = pid) (processos s) = Some p"
    and "d \<in> set (documentos_ordenados s pid)"
    and "uploads s (filename d) = Some Corrompido"
  shows "generate_pdf_task ev s pid = Falhou"
proof -
  from assms(1) have id: "p_id p = pid" by (rule find_por_id [THEN conjunct1])
  from assms(2) obtain a where a: "a \<in> set (sort_key data (andamentos_de s pid))"
    "d \<in> set (documentos_de s a)"
    unfolding documentos_ordenados_def by auto
  from a assms(3)
  have "anexar_andamentos s (sort_key data (andamentos_de s pid)) (render_capa ev p) = None"
    by (rule anexar_andamentos_corrompido)
  then show ?thesis
    by (simp add: generate_pdf_task_def assms(1) id)
qed

lemma generate_pdf_task_sem_processo:
  assumes "find (\<lambda>p. p_id p = pid) (processos s) = None"
  shows "generate_pdf_task ev s pid = Sem_processo"
  using assms by (simp add: generate_pdf_task_def)

lemma concat_map_filter_vazio:
  assumes "\<forall>x \<in> set xs. \<not> P x \<longrightarrow> f x = []"
  shows "concat (map f xs) = concat (map f (filter P xs))"
  using assms by (induction xs) auto

lemma dois_distintos:
  assumes "distinct xs" and "set xs = {a, b}" and "a \<noteq> b"
  shows "xs = [a, b] \<or> xs = [b, a]"
proof -
  from assms have "length xs = 2"
    using distinct_card [of xs] by simp
  then obtain x y where xy: "xs = [x, y]"
    by (cases xs; cases "tl xs") auto
  with assms(2) have "{x, y} = {a, b}" by simp
  then have "(x = a \<and> y = b) \<or> (x = b \<and> y = a)" by (simp add: doubleton_eq_iff)
  with xy show ?thesis by blast
qed

lemma ordenados_dois:
  assumes "a1 \<in> set ands" and "a2 \<in> set ands" and "distinct ands" and "data a1 < data a2"
  shows "filter (\<lambda>x. x = a1 \<or> x = a2) (sort_key data ands) = [a1, a2]"
proof -
  let ?P = "\<lambda>x. x = a1 \<or> x = a2"
  from assms(4) have ne: "a1 \<noteq> a2" by auto
  have "distinct (filter ?P ands)" using assms(3) by simp
  moreover have "set (filter ?P ands) = {a1, a2}" using assms(1,2) by auto
  ultimately have "filter ?P ands = [a1, a2] \<or> filter ?P ands = [a2, a1]"
    using ne by (rule dois_distintos)
  moreover have "sort_key data [a1, a2] = [a1, a2]" using assms(4) by simp
  moreover have "sort_key data [a2, a1] = [a1, a2]" using assms(4) by simp
  ultimately have "sort_key data (filter ?P ands) = [a1, a2]" by auto
  then show ?thesis by (simp add: filter_sort)
qed

lemma documentos_ordenados_dois:
  assumes "a1 \<in> set (andamentos_de s pid)" and "a2 \<in> set (andamentos_de s pid)"
    and "distinct (andamentos_de s pid)" and "data a1 < data a2"
    and "documentos_de s a1 = [d1]" and "documentos_de s a2 = [d2]"
    and "\<forall>a \<in> set (andamentos_de s pid). a \<noteq> a1 \<and> a \<noteq> a2 \<longrightarrow> documentos_de s a = []"
  shows "documentos_ordenados s pid = [d1, d2]"
proof -
  let ?P = "\<lambda>x. x = a1 \<or> x = a2"
  let ?xs = "sort_key data (andamentos_de s pid)"
  from assms(7) have "\<forall>x \<in> set ?xs. \<not> ?P x \<longrightarrow> documentos_de s x = []" by simp
  then have "concat (map (documentos_de s) ?xs) = concat (map (documentos_de s) (filter ?P ?xs))"
    by (rule concat_map_filter_vazio)
  also have "filter ?P ?xs = [a1, a2]"
    using assms(1,2,3,4) by (rule ordenados_dois)
  finally show ?thesis by (simp add: documentos_ordenados_def assms(5,6))
qed

text \<open>
  C3. For a case that is found and whose attached files, where present, are PDFs that can
  be read, the task writes a report: its pages are those of the cover, then those of each
  document in the order of its file, the documents taken entry by entry in ascending
  order of the entries' timestamps, entries of equal timestamp in the order of the table.
  Every page carries, aligned to the right, the label Fl. and its position in the report
  in at least three digits, counted from 1. So for entries at T1 < T2, each with one
  document, the other entries having none, and a cover of one page: the cover, the pages
  of the document of T1, the pages of the document of T2, numbered 1 to M, where M is 1
  plus the pages of the two documents.
\<close>

theorem relatorio_ordem_e_folhas:
  assumes "find (\<lambda>p. p_id p = pid) (processos s) = Some p"
    and "\<forall>d \<in> set (documentos_ordenados s pid). uploads s (filename d) \<noteq> Some Corrompido"
  shows "\<exists>folhas. generate_pdf_task ev s pid = Relatorio (final_filename ev p) folhas
    \<and> map conteudo folhas =
        render_capa ev p @ concat (map (paginas_de (uploads s)) (documentos_ordenados s pid))
    \<and> map rotulo folhas = map (\<lambda>k. ''Fl. '' @ fmt_03d k) [1..<Suc (length folhas)]
    \<and> (\<forall>k. valor_decimal (fmt_03d k) = k \<and> 3 \<le> length (fmt_03d k))
    \<and> (\<forall>fo \<in> set folhas. alinhar fo = TEXT_ALIGN_RIGHT)
    \<and> sorted (map data (sort_key data (andamentos_de s pid)))
    \<and> (\<forall>t. filter (\<lambda>a. data a = t) (sort_key data (andamentos_de s pid)) =
            filter (\<lambda>a. data a = t) (andamentos_de s pid))
    \<and> (\<forall>a1 a2 d1 d2 ps1 ps2 c.
          a1 \<in> set (andamentos_de s pid) \<and> a2 \<in> set (andamentos_de s pid) \<and>
          distinct (andamentos_de s pid) \<and> data a1 < data a2 \<and>
          documentos_de s a1 = [d1] \<and> documentos_de s a2 = [d2] \<and>
          (\<forall>a \<in> set (andamentos_de s pid). a \<noteq> a1 \<and> a \<noteq> a2 \<longrightarrow> documentos_de s a = []) \<and>
          uploads s (filename d1) = Some (Pdf ps1) \<and> uploads s (filename d2) = Some (Pdf ps2) \<and>
          render_capa ev p = [c] \<longrightarrow>
          map conteudo folhas = c # ps1 @ ps2 \<and>
          length folhas = 1 + (length ps1 + length ps2))"
proof -
  let ?pags = "render_capa ev p @
      concat (map (paginas_de (uploads s)) (documentos_ordenados s pid))"
  let ?folhas = "numerar 0 ?pags"
  have r: "generate_pdf_task ev s pid = Relatorio (final_filename ev p) ?folhas"
    using assms by (rule generate_pdf_task_eq)
  have c: "map conteudo ?folhas = ?pags" by (rule numerar_conteudo)
  have l: "length ?folhas = length ?pags" by (rule numerar_length)
  have ro: "map rotulo ?folhas = map (\<lambda>k. ''Fl. '' @ fmt_03d k) [1..<Suc (length ?folhas)]"
    unfolding l using numerar_rotulo [of 0 ?pags] by simp
  have v: "\<forall>k. valor_decimal (fmt_03d k) = k \<and> 3 \<le> length (fmt_03d k)"
    by (simp add: valor_fmt_03d length_fmt_03d)
  have al: "\<forall>fo \<in> set ?folhas. alinhar fo = TEXT_ALIGN_RIGHT" by (rule numerar_alinhar)
  have so: "sorted (map data (sort_key data (andamentos_de s pid)))"
    by (rule sorted_sort_key)
  have st: "\<forall>t. filter (\<lambda>a. data a = t) (sort_key data (andamentos_de s pid)) =
            filter (\<lambda>a. data a = t) (andamentos_de s pid)"
    by (simp add: sort_key_stable)
  have two: "\<forall>a1 a2 d1 d2 ps1 ps2 c.
          a1 \<in> set (andamentos_de s pid) \<and> a2 \<in> set (andamentos_de s pid) \<and>
          distinct (andamentos_de s pid) \<and> data a1 < data a2 \<and>
          documentos_de s a1 = [d1] \<and> documentos_de s a2 = [d2] \<and>
          (\<forall>a \<in> set (andamentos_de s pid). a \<noteq> a1 \<and> a \<noteq> a2 \<longrightarrow> documentos_de s a = []) \<and>
          uploads s (filename d1) = Some (Pdf ps1) \<and> uploads s (filename d2) = Some (Pdf ps2) \<and>
          render_capa ev p = [c] \<longrightarrow>
          map conteudo ?folhas = c # ps1 @ ps2 \<and>
          length ?folhas = 1 + (length ps1 + length ps2)"
  proof (intro allI impI)
    fix a1 a2 d1 d2 ps1 ps2 c
    assume h: "a1 \<in> set (andamentos_de s pid) \<and> a2 \<in> set (andamentos_de s pid) \<and>
          distinct (andamentos_de s pid) \<and> data a1 < data a2 \<and>
          documentos_de s a1 = [d1] \<and> documentos_de s a2 = [d2] \<and>
          (\<forall>a \<in> set (andamentos_de s pid). a \<noteq> a1 \<and> a \<noteq> a2 \<longrightarrow> documentos_de s a = []) \<and>
          uploads s (filename d1) = Some (Pdf ps1) \<and> uploads s (filename d2) = Some (Pdf ps2) \<and>
          render_capa ev p = [c]"
    then have "documentos_ordenados s pid = [d1, d2]"
      by (intro documentos_ordenados_dois [of a1 s pid a2]) simp_all
    with h have "?pags = c # ps1 @ ps2" by (simp add: paginas_de_simps)
    then show "map conteudo ?folhas = c # ps1 @ ps2 \<and>
          length ?folhas = 1 + (length ps1 + length ps2)"
      unfolding c l by simp
  qed
  show ?thesis
    by (rule exI [of _ ?folhas]) (use r c ro v al so st two in blast)
qed

lemma exemplo_relatorio_fatos:
  "find (\<lambda>p. p_id p = 1) (processos estado_exemplo) = Some (caso_exemplo (Some 30) (Some 5))"
  "find (\<lambda>p. p_id p = 1) (processos estado_sem_b) = Some (caso_exemplo (Some 30) (Some 5))"
  "andamentos_de estado_exemplo 1 =
     [\<lparr>a_id = 1, etapa = ''Autuado'', descricao = Some ''Processo instaurado.'',
        data = (data_D, 0), processo_id = 1\<rparr>,
      \<lparr>a_id = 3, etapa = ''Julgamento'', descricao = None,
        data = (data_D + 9, 0), processo_id = 1\<rparr>,
      \<lparr>a_id = 4, etapa = ''Relatorio'', descricao = None,
        data = (data_D + 2, 0), processo_id = 1\<rparr>]"
  "andamentos_de estado_sem_b 1 = andamentos_de estado_exemplo 1"
  "final_filename env_exemplo (caso_exemplo (Some 30) (Some 5)) =
     ''processo_001-2024_20240504_120000.pdf''"
  "render_capa env_exemplo (caso_exemplo (Some 30) (Some 5)) = [''capa'']"
  by (simp_all add: estado_exemplo_def estado_sem_b_def caso_exemplo_def outro_caso_def
      andamentos_de_def final_filename_def replace_barra_def env_exemplo_def)

lemma exemplo_documentos_ordenados:
  "documentos_ordenados estado_exemplo 1 =
     [\<lparr>d_id = 3, filename = ''c.pdf'', andamento_id = 4\<rparr>,
      \<lparr>d_id = 2, filename = ''b.pdf'', andamento_id = 3\<rparr>]"
  "documentos_ordenados estado_sem_b 1 = documentos_ordenados estado_exemplo 1"
proof -
  have d: "documentos_de estado_sem_b = documentos_de estado_exemplo"
    by (intro ext) (simp add: documentos_de_def estado_sem_b_def)
  show "documentos_ordenados estado_exemplo 1 =
     [\<lparr>d_id = 3, filename = ''c.pdf'', andamento_id = 4\<rparr>,
      \<lparr>d_id = 2, filename = ''b.pdf'', andamento_id = 3\<rparr>]"
    unfolding documentos_ordenados_def exemplo_relatorio_fatos(3)
    by (simp add: documentos_de_def estado_exemplo_def data_D_def)
  show "documentos_ordenados estado_sem_b 1 = documentos_ordenados estado_exemplo 1"
    unfolding documentos_ordenados_def exemplo_relatorio_fatos(4) d by (rule refl)
qed


lemma exemplo_uploads:
  "uploads estado_exemplo ''b.pdf'' = Some (Pdf [''b1'', ''b2''])"
  "uploads estado_exemplo ''c.pdf'' = Some (Pdf [''c1'', ''c2'', ''c3''])"
  "uploads estado_sem_b ''b.pdf'' = None"
  "uploads estado_sem_b ''c.pdf'' = Some (Pdf [''c1'', ''c2'', ''c3''])"
  by (simp_all add: estado_exemplo_def estado_sem_b_def)

lemma fmt_03d_seis:
  "fmt_03d 1 = ''001''" "fmt_03d 2 = ''002''" "fmt_03d 3 = ''003''"
  "fmt_03d 4 = ''004''" "fmt_03d 5 = ''005''" "fmt_03d 6 = ''006''"
  by code_simp+

lemma upt_seis: "[1..<Suc 6] = [1, 2, 3, 4, 5, 6]"
  by code_simp

lemma exemplo_rotulos:
  "map (\<lambda>k. ''Fl. '' @ fmt_03d k) [1..<Suc 6] =
     [''Fl. 001'', ''Fl. 002'', ''Fl. 003'', ''Fl. 004'', ''Fl. 005'', ''Fl. 006'']"
  unfolding upt_seis list.map fmt_03d_seis by simp


theorem relatorio_ordem_e_folhas_witness:
  "find (\<lambda>p. p_id p = 1) (processos estado_exemplo) = Some (caso_exemplo (Some 30) (Some 5))
   \<and> (data_D + 2, 0) < ((data_D + 9, 0) :: datetime)
   \<and> (\<exists>folhas. generate_pdf_task env_exemplo estado_exemplo 1 =
          Relatorio ''processo_001-2024_20240504_120000.pdf'' folhas
        \<and> map conteudo folhas = [''capa'', ''c1'', ''c2'', ''c3'', ''b1'', ''b2'']
        \<and> map rotulo folhas =
            [''Fl. 001'', ''Fl. 002'', ''Fl. 003'', ''Fl. 004'', ''Fl. 005'', ''Fl. 006''])"
proof -
  let ?a1 = "\<lparr>a_id = 4, etapa = ''Relatorio'', descricao = None,
        data = (data_D + 2, 0), processo_id = 1\<rparr>"
  let ?a2 = "\<lparr>a_id = 3, etapa = ''Julgamento'', descricao = None,
        data = (data_D + 9, 0), processo_id = 1\<rparr>"
  let ?d1 = "\<lparr>d_id = 3, filename = ''c.pdf'', andamento_id = 4\<rparr>"
  let ?d2 = "\<lparr>d_id = 2, filename = ''b.pdf'', andamento_id = 3\<rparr>"
  note f = exemplo_relatorio_fatos(1)
  have l: "\<forall>d \<in> set (documentos_ordenados estado_exemplo 1).
      uploads estado_exemplo (filename d) \<noteq> Some Corrompido"
    unfolding exemplo_documentos_ordenados(1) by (simp add: exemplo_uploads)
  have lt: "(data_D + 2, 0) < ((data_D + 9, 0) :: datetime)" by simp
  have cena: "?a1 \<in> set (andamentos_de estado_exemplo 1) \<and>
      ?a2 \<in> set (andamentos_de estado_exemplo 1) \<and>
      distinct (andamentos_de estado_exemplo 1) \<and> data ?a1 < data ?a2 \<and>
      documentos_de estado_exemplo ?a1 = [?d1] \<and> documentos_de estado_exemplo ?a2 = [?d2] \<and>
      (\<forall>a \<in> set (andamentos_de estado_exemplo 1).
          a \<noteq> ?a1 \<and> a \<noteq> ?a2 \<longrightarrow> documentos_de estado_exemplo a = []) \<and>
      uploads estado_exemplo (filename ?d1) = Some (Pdf [''c1'', ''c2'', ''c3'']) \<and>
      uploads estado_exemplo (filename ?d2) = Some (Pdf [''b1'', ''b2'']) \<and>
      render_capa env_exemplo (caso_exemplo (Some 30) (Some 5)) = [''capa'']"
    unfolding exemplo_relatorio_fatos(3)
    by (simp add: exemplo_uploads exemplo_relatorio_fatos(6) documentos_de_def estado_exemplo_def)
  from relatorio_ordem_e_folhas [OF f l, of env_exemplo]
  obtain folhas where big: "generate_pdf_task env_exemplo estado_exemplo 1 =
        Relatorio (final_filename env_exemplo (caso_exemplo (Some 30) (Some 5))) folhas
    \<and> map conteudo folhas =
        render_capa env_exemplo (caso_exemplo (Some 30) (Some 5)) @
        concat (map (paginas_de (uploads estado_exemplo)) (documentos_ordenados estado_exemplo 1))
    \<and> map rotulo folhas = map (\<lambda>k. ''Fl. '' @ fmt_03d k) [1..<Suc (length folhas)]
    \<and> (\<forall>k. valor_decimal (fmt_03d k) = k \<and> 3 \<le> length (fmt_03d k))
    \<and> (\<forall>fo \<in> set folhas. alinhar fo = TEXT_ALIGN_RIGHT)
    \<and> sorted (map data (sort_key data (andamentos_de estado_exemplo 1)))
    \<and> (\<forall>t. filter (\<lambda>a. data a = t) (sort_key data (andamentos_de estado_exemplo 1)) =
            filter (\<lambda>a. data a = t) (andamentos_de estado_exemplo 1))
    \<and> (\<forall>a1 a2 d1 d2 ps1 ps2 c.
          a1 \<in> set (andamentos_de estado_exemplo 1) \<and> a2 \<in> set (andamentos_de estado_exemplo 1) \<and>
          distinct (andamentos_de estado_exemplo 1) \<and> data a1 < data a2 \<and>
          documentos_de estado_exemplo a1 = [d1] \<and> documentos_de estado_exemplo a2 = [d2] \<and>
          (\<forall>a \<in> set (andamentos_de estado_exemplo 1).
              a \<noteq> a1 \<and> a \<noteq> a2 \<longrightarrow> documentos_de estado_exemplo a = []) \<and>
          uploads estado_exemplo (filename d1) = Some (Pdf ps1) \<and>
          uploads estado_exemplo (filename d2) = Some (Pdf ps2) \<and>
          render_capa env_exemplo (caso_exemplo (Some 30) (Some 5)) = [c] \<longrightarrow>
          map conteudo folhas = c # ps1 @ ps2 \<and>
          length folhas = 1 + (length ps1 + length ps2))"
    by (rule exE)
  note r = big [THEN conjunct1]
  note ro = big [THEN conjunct2, THEN conjunct2, THEN conjunct1]
  note two = big [THEN conjunct2, THEN conjunct2, THEN conjunct2, THEN conjunct2,
      THEN conjunct2, THEN conjunct2, THEN conjunct2]
  from two [THEN spec, THEN spec, THEN spec, THEN spec, THEN spec, THEN spec, THEN spec,
      THEN mp, OF cena]
  have c: "map conteudo folhas = [''capa'', ''c1'', ''c2'', ''c3'', ''b1'', ''b2'']"
    and n: "length folhas = 6"
    by simp_all
  from ro have ro': "map rotulo folhas =
      [''Fl. 001'', ''Fl. 002'', ''Fl. 003'', ''Fl. 004'', ''Fl. 005'', ''Fl. 006'']"
    unfolding n exemplo_rotulos .
  from r have r': "generate_pdf_task env_exemplo estado_exemplo 1 =
      Relatorio ''processo_001-2024_20240504_120000.pdf'' folhas"
    unfolding exemplo_relatorio_fatos(5) .
  have "\<exists>folhas. generate_pdf_task env_exemplo estado_exemplo 1 =
          Relatorio ''processo_001-2024_20240504_120000.pdf'' folhas
        \<and> map conteudo folhas = [''capa'', ''c1'', ''c2'', ''c3'', ''b1'', ''b2'']
        \<and> map rotulo folhas =
            [''Fl. 001'', ''Fl. 002'', ''Fl. 003'', ''Fl. 004'', ''Fl. 005'', ''Fl. 006'']"
    by (rule exI [of _ folhas]) (intro conjI r' c ro')
  with f lt show ?thesis by (intro conjI)
qed

text \<open>
  C4. A document whose file is not in the upload folder adds no page and does not end the
  task: for a case that is found and whose present files can be read, the report is the
  cover followed by the pages of the documents whose file exists, in their order. So for
  a case with two documents, the file of one missing and the other a PDF, the task writes
  a report of the cover and the pages of that PDF.
\<close>

theorem relatorio_salta_ficheiro_em_falta:
  assumes "find (\<lambda>p. p_id p = pid) (processos s) = Some p"
  shows "((\<forall>d \<in> set (documentos_ordenados s pid). uploads s (filename d) \<noteq> Some Corrompido) \<longrightarrow>
      (\<exists>folhas. generate_pdf_task ev s pid = Relatorio (final_filename ev p) folhas
        \<and> map conteudo folhas = render_capa ev p @
            concat (map (paginas_de (uploads s))
              (filter (\<lambda>d. uploads s (filename d) \<noteq> None) (documentos_ordenados s pid)))))
    \<and> (\<forall>d1 d2 ps.
        (documentos_ordenados s pid = [d1, d2] \<or> documentos_ordenados s pid = [d2, d1]) \<and>
        uploads s (filename d1) = None \<and> uploads s (filename d2) = Some (Pdf ps) \<longrightarrow>
        (\<exists>folhas. generate_pdf_task ev s pid = Relatorio (final_filename ev p) folhas
          \<and> map conteudo folhas = render_capa ev p @ ps
          \<and> length folhas = length (render_capa ev p) + length ps))"
proof (intro conjI impI allI)
  assume l: "\<forall>d \<in> set (documentos_ordenados s pid). uploads s (filename d) \<noteq> Some Corrompido"
  have "\<forall>d \<in> set (documentos_ordenados s pid).
      \<not> (uploads s (filename d) \<noteq> None) \<longrightarrow> paginas_de (uploads s) d = []"
    by (simp add: paginas_de_simps(1))
  then have "concat (map (paginas_de (uploads s)) (documentos_ordenados s pid)) =
      concat (map (paginas_de (uploads s))
        (filter (\<lambda>d. uploads s (filename d) \<noteq> None) (documentos_ordenados s pid)))"
    by (rule concat_map_filter_vazio)
  with generate_pdf_task_eq [OF assms l, of ev]
  show "\<exists>folhas. generate_pdf_task ev s pid = Relatorio (final_filename ev p) folhas
        \<and> map conteudo folhas = render_capa ev p @
            concat (map (paginas_de (uploads s))
              (filter (\<lambda>d. uploads s (filename d) \<noteq> None) (documentos_ordenados s pid)))"
    by (simp add: numerar_conteudo)
next
  fix d1 d2 ps
  assume h: "(documentos_ordenados s pid = [d1, d2] \<or> documentos_ordenados s pid = [d2, d1]) \<and>
        uploads s (filename d1) = None \<and> uploads s (filename d2) = Some (Pdf ps)"
  then have s: "set (documentos_ordenados s pid) = {d1, d2}" by auto
  from h have l: "\<forall>d \<in> set (documentos_ordenados s pid). uploads s (filename d) \<noteq> Some Corrompido"
    unfolding s by simp
  from h have p1: "paginas_de (uploads s) d1 = []"
    by (simp add: paginas_de_simps(1))
  from h have "uploads s (filename d2) = Some (Pdf ps)" by simp
  then have p2: "paginas_de (uploads s) d2 = ps"
    by (rule paginas_de_simps(2))
  from h have "documentos_ordenados s pid = [d1, d2] \<or> documentos_ordenados s pid = [d2, d1]"
    by simp
  then have "concat (map (paginas_de (uploads s)) (documentos_ordenados s pid)) = ps"
    by (auto simp: p1 p2)
  with generate_pdf_task_eq [OF assms l, of ev]
  show "\<exists>folhas. generate_pdf_task ev s pid = Relatorio (final_filename ev p) folhas
          \<and> map conteudo folhas = render_capa ev p @ ps
          \<and> length folhas = length (render_capa ev p) + length ps"
    by (simp add: numerar_conteudo numerar_length)
qed

theorem relatorio_salta_ficheiro_em_falta_witness:
  "find (\<lambda>p. p_id p = 1) (processos estado_sem_b) = Some (caso_exemplo (Some 30) (Some 5))
   \<and> documentos_ordenados estado_sem_b 1 =
       [\<lparr>d_id = 3, filename = ''c.pdf'', andamento_id = 4\<rparr>,
        \<lparr>d_id = 2, filename = ''b.pdf'', andamento_id = 3\<rparr>]
   \<and> uploads estado_sem_b ''b.pdf'' = None
   \<and> uploads estado_sem_b ''c.pdf'' = Some (Pdf [''c1'', ''c2'', ''c3''])
   \<and> (\<exists>folhas. generate_pdf_task env_exemplo estado_sem_b 1 =
          Relatorio ''processo_001-2024_20240504_120000.pdf'' folhas
        \<and> map conteudo folhas = [''capa'', ''c1'', ''c2'', ''c3''])
   \<and> filter (\<lambda>d. uploads estado_sem_b (filename d) \<noteq> None) (documentos_ordenados estado_sem_b 1) =
       [\<lparr>d_id = 3, filename = ''c.pdf'', andamento_id = 4\<rparr>]
   \<and> (\<exists>folhas. generate_pdf_task env_exemplo estado_sem_b 1 =
          Relatorio ''processo_001-2024_20240504_120000.pdf'' folhas
        \<and> map conteudo folhas = [''capa''] @
            concat (map (paginas_de (uploads estado_sem_b))
              [\<lparr>d_id = 3, filename = ''c.pdf'', andamento_id = 4\<rparr>]))"
proof -
  let ?d1 = "\<lparr>d_id = 2, filename = ''b.pdf'', andamento_id = 3\<rparr>"
  let ?d2 = "\<lparr>d_id = 3, filename = ''c.pdf'', andamento_id = 4\<rparr>"
  note f = exemplo_relatorio_fatos(2)
  have o: "documentos_ordenados estado_sem_b 1 = [?d2, ?d1]"
    unfolding exemplo_documentos_ordenados ..
  have u1: "uploads estado_sem_b (filename ?d1) = None"
    by (simp add: exemplo_uploads)
  have u2: "uploads estado_sem_b (filename ?d2) = Some (Pdf [''c1'', ''c2'', ''c3''])"
    by (simp add: exemplo_uploads)
  have cena: "(documentos_ordenados estado_sem_b 1 = [?d1, ?d2] \<or>
        documentos_ordenados estado_sem_b 1 = [?d2, ?d1]) \<and>
      uploads estado_sem_b (filename ?d1) = None \<and>
      uploads estado_sem_b (filename ?d2) = Some (Pdf [''c1'', ''c2'', ''c3''])"
    by (intro conjI disjI2 o u1 u2)
  from relatorio_salta_ficheiro_em_falta [OF f, of env_exemplo, THEN conjunct2,
      THEN spec, THEN spec, THEN spec, THEN mp, OF cena]
  obtain folhas where big: "generate_pdf_task env_exemplo estado_sem_b 1 =
        Relatorio (final_filename env_exemplo (caso_exemplo (Some 30) (Some 5))) folhas
      \<and> map conteudo folhas =
        render_capa env_exemplo (caso_exemplo (Some 30) (Some 5)) @ [''c1'', ''c2'', ''c3'']
      \<and> length folhas =
        length (render_capa env_exemplo (caso_exemplo (Some 30) (Some 5)))
          + length [''c1'', ''c2'', ''c3'']"
    by (rule exE)
  from big [THEN conjunct1] have r: "generate_pdf_task env_exemplo estado_sem_b 1 =
      Relatorio ''processo_001-2024_20240504_120000.pdf'' folhas"
    unfolding exemplo_relatorio_fatos(5) .
  from big [THEN conjunct2, THEN conjunct1]
  have c: "map conteudo folhas = [''capa'', ''c1'', ''c2'', ''c3'']"
    unfolding exemplo_relatorio_fatos(6) append_Cons append_Nil .
  have dois: "\<exists>folhas. generate_pdf_task env_exemplo estado_sem_b 1 =
          Relatorio ''processo_001-2024_20240504_120000.pdf'' folhas
        \<and> map conteudo folhas = [''capa'', ''c1'', ''c2'', ''c3'']"
    by (rule exI [of _ folhas]) (intro conjI r c)
  have l: "\<forall>d \<in> set (documentos_ordenados estado_sem_b 1).
      uploads estado_sem_b (filename d) \<noteq> Some Corrompido"
    unfolding o using u1 u2 by simp
  have fi: "filter (\<lambda>d. uploads estado_sem_b (filename d) \<noteq> None)
      (documentos_ordenados estado_sem_b 1) = [?d2]"
    unfolding o using u1 u2 by simp
  from relatorio_salta_ficheiro_em_falta [OF f, of env_exemplo, THEN conjunct1, THEN mp, OF l]
  obtain outras where g: "generate_pdf_task env_exemplo estado_sem_b 1 =
        Relatorio (final_filename env_exemplo (caso_exemplo (Some 30) (Some 5))) outras
      \<and> map conteudo outras = render_capa env_exemplo (caso_exemplo (Some 30) (Some 5)) @
          concat (map (paginas_de (uploads estado_sem_b))
            (filter (\<lambda>d. uploads estado_sem_b (filename d) \<noteq> None)
              (documentos_ordenados estado_sem_b 1)))"
    by (rule exE)
  from g [THEN conjunct1] have r2: "generate_pdf_task env_exemplo estado_sem_b 1 =
      Relatorio ''processo_001-2024_20240504_120000.pdf'' outras"
    unfolding exemplo_relatorio_fatos(5) .
  from g [THEN conjunct2] have c2: "map conteudo outras = [''capa''] @
      concat (map (paginas_de (uploads estado_sem_b)) [?d2])"
    unfolding exemplo_relatorio_fatos(6) fi .
  have geral: "\<exists>folhas. generate_pdf_task env_exemplo estado_sem_b 1 =
          Relatorio ''processo_001-2024_20240504_120000.pdf'' folhas
        \<and> map conteudo folhas = [''capa''] @
            concat (map (paginas_de (uploads estado_sem_b)) [?d2])"
    by (rule exI [of _ outras]) (intro conjI r2 c2)
  from f o exemplo_uploads(3,4) dois fi geral show ?thesis by (intro conjI)
qed

end
